theory Spec2Isabelle
  imports Complex_Main "HOL-Library.Word"
begin

unbundle bit_operations_syntax

section \<open>The Timidity MIDI backend of SDL\_mixer (src/codecs/music\_timidity.c)\<close>

text \<open>
  The backend is a thin layer over two libraries: SDL (allocation, audio streams, byte
  streams) and the Timidity synthesiser. Neither library is modelled. Every call into
  them is written to a call log, with the arguments the backend passed, and what a call
  returns is read from a record of functions, \<open>externals\<close>, that the theorems quantify
  over. A pointer that may be NULL is an \<open>option\<close>.
\<close>

subsection \<open>Data\<close>

type_synonym addr = nat

datatype MidiSong = MidiSong nat
datatype SDL_AudioStream = SDL_AudioStream nat
datatype SDL_IOStream = SDL_IOStream nat

record SDL_AudioSpec =
  format :: "32 word"
  channels :: int
  freq :: int

text \<open>
  SDL's header macro \<^verbatim>\<open>SDL_AUDIO_BITSIZE(x) ((x) & 0xFFu)\<close>: the low byte of a
  sample format is the size of one sample in bits.
\<close>

definition SDL_AUDIO_BITSIZE :: "32 word \<Rightarrow> int" where
  "SDL_AUDIO_BITSIZE x = uint (x AND 0xFF)"

text \<open>The struct of lines 31 to 39.\<close>

record TIMIDITY_Music =
  play_count :: int
  song :: "MidiSong option"
  stream :: "SDL_AudioStream option"
  buffer :: "addr option"
  buffer_size :: int
  volume :: int

text \<open>
  The calls into SDL and Timidity, each with its arguments, and with its result where the
  result is a resource. The last entry is not a call: it marks the point where the C
  program's behaviour is undefined, and nothing is said of what follows it.
\<close>

datatype call =
    Timidity_Init "string option"
  | Timidity_Exit
  | SDL_calloc "addr option"
  | Timidity_LoadSong SDL_IOStream SDL_AudioSpec "MidiSong option"
  | SDL_CreateAudioStream SDL_AudioSpec SDL_AudioSpec "SDL_AudioStream option"
  | SDL_malloc int "addr option"
  | SDL_CloseIO SDL_IOStream
  | Timidity_FreeSong MidiSong
  | SDL_DestroyAudioStream SDL_AudioStream
  | SDL_free addr
  | Timidity_SetVolume "MidiSong option" int
  | Timidity_Start "MidiSong option"
  | Timidity_Seek "MidiSong option" "32 word"
  | Timidity_Stop "MidiSong option"
  | SDL_GetAudioStreamData SDL_AudioStream addr int
  | Timidity_PlaySome "MidiSong option" "addr option" int
  | SDL_PutAudioStreamData SDL_AudioStream "addr option" int
  | Undefined_behaviour

text \<open>What the libraries return.\<close>

record externals =
  ret_SDL_getenv :: "string \<Rightarrow> string option"
  ret_Mix_GetTimidityCfg :: "string option"
  ret_Timidity_Init :: "string option \<Rightarrow> int"
  ret_SDL_calloc :: "addr option"
  ret_Timidity_LoadSong :: "SDL_IOStream \<Rightarrow> SDL_AudioSpec \<Rightarrow> MidiSong option"
  ret_SDL_CreateAudioStream :: "SDL_AudioSpec \<Rightarrow> SDL_AudioSpec \<Rightarrow> SDL_AudioStream option"
  ret_SDL_malloc :: "int \<Rightarrow> addr option"
  ret_Timidity_IsActive :: "MidiSong option \<Rightarrow> bool"
  ret_SDL_GetAudioStreamData :: "SDL_AudioStream \<Rightarrow> int \<Rightarrow> int"
  ret_Timidity_PlaySome :: "MidiSong option \<Rightarrow> int \<Rightarrow> int"
  ret_SDL_PutAudioStreamData :: "SDL_AudioStream \<Rightarrow> int \<Rightarrow> bool"

subsection \<open>TIMIDITY\_Open (lines 45 to 79)\<close>

definition TIMIDITY_CFG :: string where
  "TIMIDITY_CFG = ''C:'' @ [CHR 0x5C] @ ''TIMIDITY'' @ [CHR 0x5C] @ ''TIMIDITY.CFG''"

definition TIMIDITY_CFG_ETC :: string where
  "TIMIDITY_CFG_ETC = ''/etc/timidity.cfg''"

definition TIMIDITY_CFG_FREEPATS :: string where
  "TIMIDITY_CFG_FREEPATS = ''/etc/timidity/freepats.cfg''"

text \<open>The statement \<^verbatim>\<open>if (rc < 0) rc = Timidity_Init(cfg);\<close>\<close>

definition try_init :: "externals \<Rightarrow> string option \<Rightarrow> int \<times> call list \<Rightarrow> int \<times> call list" where
  "try_init ext cfg st =
     (case st of (rc, cl) \<Rightarrow>
        if rc < 0 then (ret_Timidity_Init ext cfg, cl @ [Timidity_Init cfg]) else (rc, cl))"

text \<open>
  The first argument says whether \<^verbatim>\<open>SDL_PLATFORM_WIN32\<close> is defined: it selects
  which of the three \<^verbatim>\<open>#if defined\<close> blocks are compiled. The C function's
  \<open>spec\<close> argument is unused and left out. A status below 0 is a failure.
\<close>

definition TIMIDITY_Open :: "bool \<Rightarrow> externals \<Rightarrow> int \<times> call list" where
  "TIMIDITY_Open win32 ext =
     (let rc = - 1;
          cfg = ret_SDL_getenv ext ''TIMIDITY_CFG'';
          cfg = (if cfg = None then ret_Mix_GetTimidityCfg ext else cfg)
      in case cfg of
           Some c \<Rightarrow> (ret_Timidity_Init ext (Some c), [Timidity_Init (Some c)])
         | None \<Rightarrow>
             (let st = (rc, []);
                  st = (if win32 then try_init ext (Some TIMIDITY_CFG) st else st);
                  st = (if \<not> win32 then try_init ext (Some TIMIDITY_CFG_ETC) st else st);
                  st = (if \<not> win32 then try_init ext (Some TIMIDITY_CFG_FREEPATS) st else st)
              in try_init ext None st))"

definition TIMIDITY_Close :: "call list" where
  "TIMIDITY_Close = [Timidity_Exit]"

text \<open>
  The reading of the specification that the implementation is compared with. The explicit
  override is the environment variable, else the user-supplied path. The candidates are
  the platform defaults followed by the library's built-in default (NULL). The paths
  tried are the failing candidates up to and including the first that initialises the
  backend.
\<close>

definition spec_override :: "externals \<Rightarrow> string option" where
  "spec_override ext =
     (case ret_SDL_getenv ext ''TIMIDITY_CFG'' of
        Some c \<Rightarrow> Some c
      | None \<Rightarrow> ret_Mix_GetTimidityCfg ext)"

definition spec_candidates :: "bool \<Rightarrow> string option list" where
  "spec_candidates win32 =
     (if win32 then [Some TIMIDITY_CFG]
      else [Some TIMIDITY_CFG_ETC, Some TIMIDITY_CFG_FREEPATS]) @ [None]"

definition spec_tried :: "externals \<Rightarrow> string option list \<Rightarrow> string option list" where
  "spec_tried ext cs =
     takeWhile (\<lambda>c. ret_Timidity_Init ext c < 0) cs
     @ take 1 (dropWhile (\<lambda>c. ret_Timidity_Init ext c < 0) cs)"

subsection \<open>TIMIDITY\_Seek, TIMIDITY\_Play, TIMIDITY\_Stop and the volume (lines 131 to 156, 215 to 254)\<close>

text \<open>
  Line 218 multiplies in double precision and casts to \<^verbatim>\<open>Uint32\<close>. A position is
  the real number that a finite double stands for. The product of two doubles is the
  exact product rounded to the nearest double, ties to even (IEEE 754 binary64: 53
  significant bits, least exponent \<open>- 1022\<close>; a product too large for a double comes out
  above every \<^verbatim>\<open>Uint32\<close> and ends in the undefined cast below).
\<close>

definition round_half_even :: "real \<Rightarrow> int" where
  "round_half_even r =
     (let f = \<lfloor>r\<rfloor>
      in if r - of_int f < 1 / 2 then f
         else if 1 / 2 < r - of_int f then f + 1
         else if even f then f else f + 1)"

definition double_of_real :: "real \<Rightarrow> real" where
  "double_of_real x =
     (if x = 0 then 0
      else (let e = max \<lfloor>log 2 \<bar>x\<bar>\<rfloor> (- 1022);
                q = 2 powr (of_int e - 52)
            in of_int (round_half_even (x / q)) * q))"

text \<open>
  The cast of a double to \<^verbatim>\<open>Uint32\<close> drops the fraction. C defines it only when the
  value so truncated fits the type, that is for a double above \<open>- 1\<close> and below \<open>2 ^ 32\<close>;
  \<open>None\<close> is the undefined behaviour outside.
\<close>

definition Uint32_of_double :: "real \<Rightarrow> 32 word option" where
  "Uint32_of_double x =
     (if - 1 < x \<and> x < 2 ^ 32 then Some (word_of_int (if x < 0 then \<lceil>x\<rceil> else \<lfloor>x\<rfloor>))
      else None)"

definition TIMIDITY_Seek :: "TIMIDITY_Music \<Rightarrow> real \<Rightarrow> int \<times> call list" where
  "TIMIDITY_Seek music position =
     (0, [case Uint32_of_double (double_of_real (position * 1000)) of
            Some ms \<Rightarrow> Timidity_Seek (song music) ms
          | None \<Rightarrow> Undefined_behaviour])"

definition TIMIDITY_Play :: "TIMIDITY_Music \<Rightarrow> int \<Rightarrow> int \<times> TIMIDITY_Music \<times> call list" where
  "TIMIDITY_Play music n =
     (let music = music\<lparr>play_count := n\<rparr>;
          cl = [Timidity_Start (song music)]
      in case TIMIDITY_Seek music 0 of (rc, cl') \<Rightarrow> (rc, music, cl @ cl'))"

definition TIMIDITY_IsPlaying :: "externals \<Rightarrow> TIMIDITY_Music \<Rightarrow> bool" where
  "TIMIDITY_IsPlaying ext music = ret_Timidity_IsActive ext (song music)"

definition TIMIDITY_Stop :: "TIMIDITY_Music \<Rightarrow> TIMIDITY_Music \<times> call list" where
  "TIMIDITY_Stop music = (music, [Timidity_Stop (song music)])"

definition TIMIDITY_SetVolume :: "TIMIDITY_Music \<Rightarrow> int \<Rightarrow> TIMIDITY_Music \<times> call list" where
  "TIMIDITY_SetVolume music v =
     (let music = music\<lparr>volume := v\<rparr>
      in (music, [Timidity_SetVolume (song music) v]))"

definition TIMIDITY_GetVolume :: "TIMIDITY_Music \<Rightarrow> int" where
  "TIMIDITY_GetVolume music = volume music"

text \<open>A sequence of volume operations on one session; the reads are collected.\<close>

datatype volume_op = SetVolume int | GetVolume

fun volume_ops :: "TIMIDITY_Music \<Rightarrow> volume_op list \<Rightarrow> TIMIDITY_Music \<times> int list" where
  "volume_ops music [] = (music, [])"
| "volume_ops music (SetVolume v # ops) = volume_ops (fst (TIMIDITY_SetVolume music v)) ops"
| "volume_ops music (GetVolume # ops) =
     (case volume_ops music ops of (m, rs) \<Rightarrow> (m, TIMIDITY_GetVolume music # rs))"

text \<open>Every level that a sequence of operations sets lies between the two bounds.\<close>

fun levels_within :: "int \<Rightarrow> int \<Rightarrow> volume_op list \<Rightarrow> bool" where
  "levels_within lo hi [] = True"
| "levels_within lo hi (SetVolume v # ops) = (lo \<le> v \<and> v \<le> hi \<and> levels_within lo hi ops)"
| "levels_within lo hi (GetVolume # ops) = levels_within lo hi ops"

subsection \<open>TIMIDITY\_Delete and TIMIDITY\_CreateFromIO (lines 86 to 129, 234 to 248)\<close>

text \<open>A session is the address of its struct and the struct's contents.\<close>

definition TIMIDITY_Delete :: "addr \<times> TIMIDITY_Music \<Rightarrow> call list" where
  "TIMIDITY_Delete s =
     (case s of (p, music) \<Rightarrow>
        (case song music of Some sg \<Rightarrow> [Timidity_FreeSong sg] | None \<Rightarrow> [])
        @ (case stream music of Some st \<Rightarrow> [SDL_DestroyAudioStream st] | None \<Rightarrow> [])
        @ (case buffer music of Some b \<Rightarrow> [SDL_free b] | None \<Rightarrow> [])
        @ [SDL_free p])"

text \<open>What \<^verbatim>\<open>SDL_calloc\<close> hands out: every field zero.\<close>

definition zeroed :: TIMIDITY_Music where
  "zeroed = \<lparr>play_count = 0, song = None, stream = None, buffer = None,
             buffer_size = 0, volume = 0\<rparr>"

text \<open>
  \<open>music_spec\<close> is the mixer's output format, a global of the library, and
  \<open>MIX_MAX_VOLUME\<close> a constant of its public header; both are parameters here. The
  buffer size is at most \<open>4096 * 31 * 2\<close> (lemma \<open>buffer_size_no_wrap\<close>), so the C
  arithmetic does not wrap.
\<close>

definition TIMIDITY_CreateFromIO ::
  "SDL_AudioSpec \<Rightarrow> int \<Rightarrow> externals \<Rightarrow> SDL_IOStream \<Rightarrow> bool
   \<Rightarrow> (addr \<times> TIMIDITY_Music) option \<times> call list" where
  "TIMIDITY_CreateFromIO music_spec MIX_MAX_VOLUME ext src closeio =
     (case ret_SDL_calloc ext of
        None \<Rightarrow> (None, [SDL_calloc None])
      | Some p \<Rightarrow>
          (let cl = [SDL_calloc (Some p)];
               music = zeroed\<lparr>volume := MIX_MAX_VOLUME\<rparr>;
               need_stream = (2 < channels music_spec);
               spec = (if 2 < channels music_spec then music_spec\<lparr>channels := 2\<rparr>
                       else music_spec);
               music = music\<lparr>song := ret_Timidity_LoadSong ext src spec\<rparr>;
               cl = cl @ [Timidity_LoadSong src spec (song music)]
           in if song music = None then (None, cl @ TIMIDITY_Delete (p, music))
              else if need_stream then
                (let music = music\<lparr>stream := ret_SDL_CreateAudioStream ext spec music_spec\<rparr>;
                     cl = cl @ [SDL_CreateAudioStream spec music_spec (stream music)]
                 in if stream music = None then (None, cl @ TIMIDITY_Delete (p, music))
                    else
                      (let music = music\<lparr>buffer_size :=
                             4096 * (SDL_AUDIO_BITSIZE (format spec) div 8) * channels spec\<rparr>;
                           music = music\<lparr>buffer := ret_SDL_malloc ext (buffer_size music)\<rparr>;
                           cl = cl @ [SDL_malloc (buffer_size music) (buffer music)]
                       in if buffer music = None then (None, cl @ TIMIDITY_Delete (p, music))
                          else (Some (p, music), cl @ (if closeio then [SDL_CloseIO src] else []))))
              else (Some (p, music), cl @ (if closeio then [SDL_CloseIO src] else []))))"

text \<open>
  Resource accounting over a call log: a successful allocation makes its resource live,
  a release needs a live resource (\<open>None\<close>: something was released that was not live,
  or released twice).
\<close>

datatype resource = Mem addr | Song MidiSong | Stream SDL_AudioStream

fun account :: "call \<Rightarrow> resource set \<Rightarrow> resource set option" where
  "account (SDL_calloc (Some p)) live = Some (insert (Mem p) live)"
| "account (SDL_malloc n (Some p)) live = Some (insert (Mem p) live)"
| "account (Timidity_LoadSong src spec (Some sg)) live = Some (insert (Song sg) live)"
| "account (SDL_CreateAudioStream a b (Some st)) live = Some (insert (Stream st) live)"
| "account (SDL_free p) live = (if Mem p \<in> live then Some (live - {Mem p}) else None)"
| "account (Timidity_FreeSong sg) live =
     (if Song sg \<in> live then Some (live - {Song sg}) else None)"
| "account (SDL_DestroyAudioStream st) live =
     (if Stream st \<in> live then Some (live - {Stream st}) else None)"
| "account c live = Some live"

fun accounts :: "call list \<Rightarrow> resource set \<Rightarrow> resource set option" where
  "accounts [] live = Some live"
| "accounts (c # cs) live =
     (case account c live of None \<Rightarrow> None | Some live' \<Rightarrow> accounts cs live')"

text \<open>The resources a session holds.\<close>

definition owned :: "addr \<times> TIMIDITY_Music \<Rightarrow> resource set" where
  "owned s =
     (case s of (p, music) \<Rightarrow>
        {Mem p} \<union> Song ` set_option (song music) \<union> Stream ` set_option (stream music)
        \<union> Mem ` set_option (buffer music))"

text \<open>
  The format the decoder is opened with (lines 99 to 103): the output format, with the
  channel count capped at 2.
\<close>

definition decoder_spec :: "SDL_AudioSpec \<Rightarrow> SDL_AudioSpec" where
  "decoder_spec music_spec =
     (if 2 < channels music_spec then music_spec\<lparr>channels := 2\<rparr> else music_spec)"

text \<open>The calls that set up an adapter: creating the stream and allocating the buffer.\<close>

fun is_adapter_allocation :: "call \<Rightarrow> bool" where
  "is_adapter_allocation (SDL_CreateAudioStream a b st) = True"
| "is_adapter_allocation (SDL_malloc n p) = True"
| "is_adapter_allocation c = False"

text \<open>Some attempted allocation of a construction returned NULL.\<close>

definition sub_allocation_fails :: "SDL_AudioSpec \<Rightarrow> externals \<Rightarrow> SDL_IOStream \<Rightarrow> bool" where
  "sub_allocation_fails music_spec ext src =
     (let spec = (if 2 < channels music_spec then music_spec\<lparr>channels := 2\<rparr> else music_spec)
      in ret_SDL_calloc ext = None
         \<or> ret_Timidity_LoadSong ext src spec = None
         \<or> (2 < channels music_spec
              \<and> (ret_SDL_CreateAudioStream ext spec music_spec = None
                   \<or> ret_SDL_malloc ext
                        (4096 * (SDL_AUDIO_BITSIZE (format spec) div 8) * channels spec) = None)))"

subsection \<open>TIMIDITY\_GetSome (lines 158 to 208)\<close>

text \<open>
  The result of a call: the return value, the session, the caller's \<open>done\<close> flag as the
  call leaves it, and the calls made. The flag is written on one path only; elsewhere it
  keeps the value the caller passed. The one subtraction, \<open>play_count - 1\<close>, is taken of
  a positive count, so C's \<open>int\<close> does not wrap there.
\<close>

record getsome_result =
  ret :: int
  music_out :: TIMIDITY_Music
  done_out :: bool
  calls :: "call list"

definition TIMIDITY_GetSome ::
  "externals \<Rightarrow> TIMIDITY_Music \<Rightarrow> addr \<Rightarrow> int \<Rightarrow> bool \<Rightarrow> getsome_result" where
  "TIMIDITY_GetSome ext music data bytes done =
     (let (filled, cl) =
            (case stream music of
               Some st \<Rightarrow> (ret_SDL_GetAudioStreamData ext st bytes,
                           [SDL_GetAudioStreamData st data bytes])
             | None \<Rightarrow> (0, []))
      in if stream music \<noteq> None \<and> filled \<noteq> 0 then
           \<lparr>ret = filled, music_out = music, done_out = done, calls = cl\<rparr>
         else if play_count music = 0 then
           \<lparr>ret = 0, music_out = music, done_out = True, calls = cl\<rparr>
         else
           (let (expected, amount, put_ok, cl) =
                  (case stream music of
                     Some st \<Rightarrow>
                       (let amount = ret_Timidity_PlaySome ext (song music) (buffer_size music)
                        in (buffer_size music, amount,
                            ret_SDL_PutAudioStreamData ext st amount,
                            cl @ [Timidity_PlaySome (song music) (buffer music) (buffer_size music),
                                  SDL_PutAudioStreamData st (buffer music) amount]))
                   | None \<Rightarrow>
                       (bytes, ret_Timidity_PlaySome ext (song music) bytes, True,
                        cl @ [Timidity_PlaySome (song music) (Some data) bytes]))
            in if \<not> put_ok then
                 \<lparr>ret = - 1, music_out = music, done_out = done, calls = cl\<rparr>
               else
                 (let (rc, music', cl) =
                        (if amount < expected then
                           (if play_count music = 1 then (0, music\<lparr>play_count := 0\<rparr>, cl)
                            else
                              (let n = (if 0 < play_count music then play_count music - 1
                                        else - 1)
                               in case TIMIDITY_Play music n of
                                    (rc, m, cl') \<Rightarrow> (rc, m, cl @ cl')))
                         else (0, music, cl))
                  in if rc < 0 then
                       \<lparr>ret = - 1, music_out = music', done_out = done, calls = cl\<rparr>
                     else if stream music \<noteq> None then
                       \<lparr>ret = 0, music_out = music', done_out = done, calls = cl\<rparr>
                     else
                       \<lparr>ret = amount, music_out = music', done_out = done, calls = cl\<rparr>)))"

text \<open>Calls that decode, and calls that allocate.\<close>

fun is_decode :: "call \<Rightarrow> bool" where
  "is_decode (Timidity_PlaySome sg b n) = True"
| "is_decode c = False"

fun is_allocation :: "call \<Rightarrow> bool" where
  "is_allocation (SDL_calloc p) = True"
| "is_allocation (SDL_malloc n p) = True"
| "is_allocation (Timidity_LoadSong src spec sg) = True"
| "is_allocation (SDL_CreateAudioStream a b st) = True"
| "is_allocation c = False"


text \<open>
  The quantities the pull protocol is described with, read off a session and the
  environment: what draining the adapter yields (nothing when there is no adapter), the
  unit the decoder is asked for, what it produces, and whether the push into the adapter
  succeeds (vacuously when there is no adapter).
\<close>

definition drained :: "externals \<Rightarrow> TIMIDITY_Music \<Rightarrow> int \<Rightarrow> int" where
  "drained ext music bytes =
     (case stream music of Some st \<Rightarrow> ret_SDL_GetAudioStreamData ext st bytes | None \<Rightarrow> 0)"

definition expected_unit :: "TIMIDITY_Music \<Rightarrow> int \<Rightarrow> int" where
  "expected_unit music bytes =
     (case stream music of Some st \<Rightarrow> buffer_size music | None \<Rightarrow> bytes)"

definition produced :: "externals \<Rightarrow> TIMIDITY_Music \<Rightarrow> int \<Rightarrow> int" where
  "produced ext music bytes = ret_Timidity_PlaySome ext (song music) (expected_unit music bytes)"

definition pushed :: "externals \<Rightarrow> TIMIDITY_Music \<Rightarrow> int \<Rightarrow> bool" where
  "pushed ext music bytes =
     (case stream music of
        Some st \<Rightarrow> ret_SDL_PutAudioStreamData ext st (produced ext music bytes)
      | None \<Rightarrow> True)"

text \<open>The calls of a pull up to and including the decode step.\<close>

definition decode_calls :: "TIMIDITY_Music \<Rightarrow> addr \<Rightarrow> int \<Rightarrow> int \<Rightarrow> call list" where
  "decode_calls music data bytes amount =
     (case stream music of
        Some st \<Rightarrow>
          [SDL_GetAudioStreamData st data bytes,
           Timidity_PlaySome (song music) (buffer music) (buffer_size music),
           SDL_PutAudioStreamData st (buffer music) amount]
      | None \<Rightarrow> [Timidity_PlaySome (song music) (Some data) bytes])"

text \<open>
  Read off a call log: the channel count the decoder was opened with, and the channel
  counts the adapter converts from and to.
\<close>

fun decoder_channels :: "call list \<Rightarrow> int option" where
  "decoder_channels [] = None"
| "decoder_channels (Timidity_LoadSong src spec sg # cs) = Some (channels spec)"
| "decoder_channels (c # cs) = decoder_channels cs"

fun adapter_channels :: "call list \<Rightarrow> (int \<times> int) option" where
  "adapter_channels [] = None"
| "adapter_channels (SDL_CreateAudioStream a b st # cs) = Some (channels a, channels b)"
| "adapter_channels (c # cs) = adapter_channels cs"

text \<open>An environment for the examples: only the library's built-in default works.\<close>

definition ext0 :: externals where
  "ext0 =
     \<lparr>ret_SDL_getenv = (\<lambda>_. None),
      ret_Mix_GetTimidityCfg = None,
      ret_Timidity_Init = (\<lambda>c. if c = None then 0 else - 1),
      ret_SDL_calloc = Some 100,
      ret_Timidity_LoadSong = (\<lambda>_ _. Some (MidiSong 1)),
      ret_SDL_CreateAudioStream = (\<lambda>_ _. Some (SDL_AudioStream 1)),
      ret_SDL_malloc = (\<lambda>_. Some 200),
      ret_Timidity_IsActive = (\<lambda>_. True),
      ret_SDL_GetAudioStreamData = (\<lambda>_ _. 0),
      ret_Timidity_PlaySome = (\<lambda>_ n. n),
      ret_SDL_PutAudioStreamData = (\<lambda>_ _. True)\<rparr>"

text \<open>
  Further examples: a path in the environment variable; a push that fails; a decoder
  that comes up short; an adapter with bytes in it; each allocation failing in turn.
\<close>

definition ext_env :: externals where
  "ext_env = ext0\<lparr>ret_SDL_getenv := (\<lambda>n. if n = ''TIMIDITY_CFG'' then Some ''/my.cfg'' else None)\<rparr>"

definition ext_put_fails :: externals where
  "ext_put_fails = ext0\<lparr>ret_Timidity_PlaySome := (\<lambda>_ _. 100),
                         ret_SDL_PutAudioStreamData := (\<lambda>_ _. False)\<rparr>"

definition ext_short :: externals where
  "ext_short = ext0\<lparr>ret_Timidity_PlaySome := (\<lambda>_ _. 100)\<rparr>"

definition ext_buffered :: externals where
  "ext_buffered = ext0\<lparr>ret_SDL_GetAudioStreamData := (\<lambda>_ n. min n 512)\<rparr>"

definition ext_no_stream :: externals where
  "ext_no_stream = ext0\<lparr>ret_SDL_CreateAudioStream := (\<lambda>_ _. None)\<rparr>"

definition ext_no_struct :: externals where
  "ext_no_struct = ext0\<lparr>ret_SDL_calloc := None\<rparr>"

definition ext_no_song :: externals where
  "ext_no_song = ext0\<lparr>ret_Timidity_LoadSong := (\<lambda>_ _. None)\<rparr>"

definition ext_no_buffer :: externals where
  "ext_no_buffer = ext0\<lparr>ret_SDL_malloc := (\<lambda>_. None)\<rparr>"

text \<open>Signed 16-bit samples at 44100 Hz on six channels, and on two.\<close>

definition spec6 :: SDL_AudioSpec where
  "spec6 = \<lparr>format = 0x8010, channels = 6, freq = 44100\<rparr>"

definition spec2 :: SDL_AudioSpec where
  "spec2 = \<lparr>format = 0x8010, channels = 2, freq = 44100\<rparr>"

text \<open>A session with an adapter and one without.\<close>

definition with_adapter :: TIMIDITY_Music where
  "with_adapter = \<lparr>play_count = 1, song = Some (MidiSong 1), stream = Some (SDL_AudioStream 1),
                   buffer = Some 200, buffer_size = 16384, volume = 128\<rparr>"

definition without_adapter :: TIMIDITY_Music where
  "without_adapter = \<lparr>play_count = 1, song = Some (MidiSong 1), stream = None,
                      buffer = None, buffer_size = 0, volume = 128\<rparr>"

section \<open>Theorems\<close>

subsection \<open>Shared lemmas\<close>

lemma Seek_to_start: "TIMIDITY_Seek music 0 = (0, [Timidity_Seek (song music) 0])"
  by (simp add: TIMIDITY_Seek_def double_of_real_def Uint32_of_double_def)

lemma Play_unfolded:
  "TIMIDITY_Play music n =
     (0, music\<lparr>play_count := n\<rparr>, [Timidity_Start (song music), Timidity_Seek (song music) 0])"
  by (simp add: TIMIDITY_Play_def Seek_to_start)

lemma Open_override:
  "spec_override ext = Some c \<Longrightarrow>
   TIMIDITY_Open win32 ext = (ret_Timidity_Init ext (Some c), [Timidity_Init (Some c)])"
  by (auto simp: TIMIDITY_Open_def spec_override_def Let_def split: option.splits)

lemma Open_no_override:
  "spec_override ext = None \<Longrightarrow>
   snd (TIMIDITY_Open win32 ext) = map Timidity_Init (spec_tried ext (spec_candidates win32)) \<and>
   fst (TIMIDITY_Open win32 ext) = ret_Timidity_Init ext (last (spec_tried ext (spec_candidates win32)))"
  by (auto simp: TIMIDITY_Open_def spec_override_def try_init_def spec_tried_def spec_candidates_def Let_def
      split: option.splits)

lemma tried_success:
  "(0 \<le> ret_Timidity_Init ext (last (spec_tried ext (spec_candidates win32)))) =
   (\<exists>c \<in> set (spec_candidates win32). 0 \<le> ret_Timidity_Init ext c)"
  by (auto simp: spec_tried_def spec_candidates_def)

text \<open>
  Two positions away from the start: 0.015 seconds, as the double nearest to it, is
  sought at millisecond 15, since the product rounds up to 15; a negative second is cast
  with undefined behaviour.
\<close>

lemma Seek_rounds_as_double:
  "TIMIDITY_Seek music (8646911284551352 / 2 ^ 59) = (0, [Timidity_Seek (song music) 15])"
proof -
  let ?x = "8646911284551352 / 2 ^ 59 * 1000 :: real"
  have "\<lfloor>log 2 ?x\<rfloor> = 3"
    by (subst floor_log_eq_powr_iff) (simp_all add: powr_numeral)
  then have e: "max \<lfloor>log 2 \<bar>?x\<bar>\<rfloor> (- 1022) = 3"
    by simp
  have q: "(2::real) powr (of_int 3 - 52) = 1 / 2 ^ 49"
    by (simp add: powr_minus_divide powr_numeral)
  have r: "round_half_even (?x / (1 / 2 ^ 49)) = 8444249301319680"
    by (simp add: round_half_even_def Let_def floor_eq_iff)
  have d: "double_of_real ?x = 15"
    unfolding double_of_real_def e Let_def q r by simp
  show ?thesis
    unfolding TIMIDITY_Seek_def d by (simp add: Uint32_of_double_def)
qed

lemma Seek_out_of_range: "TIMIDITY_Seek music (- 1) = (0, [Undefined_behaviour])"
proof -
  have "\<lfloor>log 2 (1000::real)\<rfloor> = 9"
    by (subst floor_log_eq_powr_iff) (simp_all add: powr_numeral)
  then have e: "max \<lfloor>log 2 \<bar>- 1 * 1000 :: real\<bar>\<rfloor> (- 1022) = 9"
    by simp
  have q: "(2::real) powr (of_int 9 - 52) = 1 / 2 ^ 43"
    by (simp add: powr_minus_divide powr_numeral)
  have r: "round_half_even (- 1 * 1000 / (1 / 2 ^ 43)) = - 8796093022208000"
    by (simp add: round_half_even_def Let_def floor_eq_iff)
  have d: "double_of_real (- 1 * 1000) = - 1000"
    unfolding double_of_real_def e Let_def q r by simp
  show ?thesis
    unfolding TIMIDITY_Seek_def d by (simp add: Uint32_of_double_def)
qed

lemma GetSome_push_fails:
  assumes "drained ext music bytes = 0" and "play_count music \<noteq> 0"
    and "\<not> pushed ext music bytes"
  shows "TIMIDITY_GetSome ext music data bytes done =
           \<lparr>ret = - 1, music_out = music, done_out = done,
            calls = decode_calls music data bytes (produced ext music bytes)\<rparr>"
  using assms
  by (auto simp: TIMIDITY_GetSome_def drained_def produced_def expected_unit_def pushed_def
      decode_calls_def Let_def split: option.splits)

lemma GetSome_short:
  assumes "drained ext music bytes = 0" and "play_count music \<noteq> 0"
    and "produced ext music bytes < expected_unit music bytes"
    and "pushed ext music bytes"
  shows "TIMIDITY_GetSome ext music data bytes done =
           \<lparr>ret = (if stream music = None then produced ext music bytes else 0),
            music_out = music\<lparr>play_count := (if play_count music = 1 then 0
                                 else if 1 < play_count music then play_count music - 1
                                 else - 1)\<rparr>,
            done_out = done,
            calls = decode_calls music data bytes (produced ext music bytes)
              @ (if play_count music = 1 then []
                 else [Timidity_Start (song music), Timidity_Seek (song music) 0])\<rparr>"
  using assms
  by (auto simp: TIMIDITY_GetSome_def drained_def produced_def expected_unit_def pushed_def
      decode_calls_def Play_unfolded Let_def split: option.splits)

lemma decode_calls_no_allocation:
  "\<not> list_ex is_allocation (decode_calls music data bytes amount)"
  by (simp add: decode_calls_def split: option.splits)

lemma Create_shape:
  assumes "TIMIDITY_CreateFromIO music_spec mx ext src closeio = (Some (p, m), cl)"
  shows "(stream m \<noteq> None) = (2 < channels music_spec)
       \<and> (buffer m \<noteq> None) = (stream m \<noteq> None)
       \<and> (stream m \<noteq> None \<longrightarrow>
            buffer_size m = 4096 * (SDL_AUDIO_BITSIZE (format music_spec) div 8) * 2)
       \<and> decoder_channels cl = Some (min (channels music_spec) 2)
       \<and> (stream m \<noteq> None \<longrightarrow> adapter_channels cl = Some (2, channels music_spec))
       \<and> (stream m \<noteq> None \<longrightarrow>
            SDL_CreateAudioStream (music_spec\<lparr>channels := 2\<rparr>) music_spec (stream m) \<in> set cl
            \<and> SDL_malloc (4096 * (SDL_AUDIO_BITSIZE (format music_spec) div 8) * 2) (buffer m)
                \<in> set cl)
       \<and> (stream m = None \<longrightarrow> \<not> list_ex is_adapter_allocation cl)
       \<and> cl = [SDL_calloc (Some p), Timidity_LoadSong src (decoder_spec music_spec) (song m)]
              @ (if 2 < channels music_spec
                 then [SDL_CreateAudioStream (music_spec\<lparr>channels := 2\<rparr>) music_spec (stream m),
                       SDL_malloc (4096 * (SDL_AUDIO_BITSIZE (format music_spec) div 8) * 2)
                         (buffer m)]
                 else [])
              @ (if closeio then [SDL_CloseIO src] else [])
       \<and> ret_SDL_calloc ext = Some p
       \<and> song m = ret_Timidity_LoadSong ext src (decoder_spec music_spec)
       \<and> song m \<noteq> None
       \<and> stream m = (if 2 < channels music_spec
             then ret_SDL_CreateAudioStream ext (music_spec\<lparr>channels := 2\<rparr>) music_spec
             else None)
       \<and> buffer m = (if 2 < channels music_spec
             then ret_SDL_malloc ext (4096 * (SDL_AUDIO_BITSIZE (format music_spec) div 8) * 2)
             else None)"
  using assms
  by (auto simp: TIMIDITY_CreateFromIO_def decoder_spec_def zeroed_def Let_def
      split: option.splits if_splits)

lemma Create_fails_struct:
  "ret_SDL_calloc ext = None \<Longrightarrow>
   TIMIDITY_CreateFromIO music_spec mx ext src closeio = (None, [SDL_calloc None])"
  by (simp add: TIMIDITY_CreateFromIO_def)

lemma Create_fails_song:
  "ret_SDL_calloc ext = Some q \<and> ret_Timidity_LoadSong ext src (decoder_spec music_spec) = None \<Longrightarrow>
   TIMIDITY_CreateFromIO music_spec mx ext src closeio =
     (None, [SDL_calloc (Some q),
             Timidity_LoadSong src (decoder_spec music_spec) None,
             SDL_free q])"
  by (auto simp: TIMIDITY_CreateFromIO_def TIMIDITY_Delete_def decoder_spec_def zeroed_def Let_def)

lemma Create_fails_stream:
  "ret_SDL_calloc ext = Some q \<and> 2 < channels music_spec
   \<and> ret_Timidity_LoadSong ext src (decoder_spec music_spec) = Some sg
   \<and> ret_SDL_CreateAudioStream ext (decoder_spec music_spec) music_spec = None \<Longrightarrow>
   TIMIDITY_CreateFromIO music_spec mx ext src closeio =
     (None, [SDL_calloc (Some q),
             Timidity_LoadSong src (decoder_spec music_spec) (Some sg),
             SDL_CreateAudioStream (decoder_spec music_spec) music_spec None,
             Timidity_FreeSong sg,
             SDL_free q])"
  by (auto simp: TIMIDITY_CreateFromIO_def TIMIDITY_Delete_def decoder_spec_def zeroed_def Let_def)

lemma Create_fails_buffer:
  "ret_SDL_calloc ext = Some q \<and> 2 < channels music_spec
   \<and> ret_Timidity_LoadSong ext src (decoder_spec music_spec) = Some sg
   \<and> ret_SDL_CreateAudioStream ext (decoder_spec music_spec) music_spec = Some st
   \<and> ret_SDL_malloc ext (4096 * (SDL_AUDIO_BITSIZE (format music_spec) div 8) * 2) = None \<Longrightarrow>
   TIMIDITY_CreateFromIO music_spec mx ext src closeio =
     (None, [SDL_calloc (Some q),
             Timidity_LoadSong src (decoder_spec music_spec) (Some sg),
             SDL_CreateAudioStream (decoder_spec music_spec) music_spec (Some st),
             SDL_malloc (4096 * (SDL_AUDIO_BITSIZE (format music_spec) div 8) * 2) None,
             Timidity_FreeSong sg,
             SDL_DestroyAudioStream st,
             SDL_free q])"
  by (auto simp: TIMIDITY_CreateFromIO_def TIMIDITY_Delete_def decoder_spec_def zeroed_def Let_def)

lemma decoder_spec_spec6: "decoder_spec spec6 = spec2"
  by (simp add: decoder_spec_def spec6_def spec2_def)

lemma decoder_spec_spec2: "decoder_spec spec2 = spec2"
  by (simp add: decoder_spec_def spec2_def)

lemma SDL_AUDIO_BITSIZE_range: "0 \<le> SDL_AUDIO_BITSIZE x \<and> SDL_AUDIO_BITSIZE x \<le> 255"
proof -
  have "x AND 0xFF \<le> 0xFF"
    by (rule word_and_le1)
  then have "uint (x AND 0xFF) \<le> uint (0xFF :: 32 word)"
    by (simp only: word_le_def)
  then show ?thesis
    by (simp add: SDL_AUDIO_BITSIZE_def)
qed

lemma buffer_size_no_wrap:
  assumes "TIMIDITY_CreateFromIO music_spec mx ext src closeio = (Some (p, m), cl)"
  shows "0 \<le> buffer_size m \<and> buffer_size m \<le> 253952"
proof -
  have r: "0 \<le> SDL_AUDIO_BITSIZE (format music_spec) div 8
         \<and> SDL_AUDIO_BITSIZE (format music_spec) div 8 \<le> 31"
    using SDL_AUDIO_BITSIZE_range [of "format music_spec"] by auto
  from assms have "buffer_size m = 0
      \<or> buffer_size m = 4096 * (SDL_AUDIO_BITSIZE (format music_spec) div 8) * 2"
    by (auto simp: TIMIDITY_CreateFromIO_def zeroed_def Let_def split: option.splits if_splits)
  with r show ?thesis by auto
qed

lemma Create_volume:
  "TIMIDITY_CreateFromIO music_spec mx ext src closeio = (Some (p, m), cl) \<Longrightarrow> volume m = mx"
  by (auto simp: TIMIDITY_CreateFromIO_def zeroed_def Let_def split: option.splits if_splits)

lemma Create_fails:
  "sub_allocation_fails music_spec ext src \<Longrightarrow>
   fst (TIMIDITY_CreateFromIO music_spec mx ext src closeio) = None
   \<and> accounts (snd (TIMIDITY_CreateFromIO music_spec mx ext src closeio)) {} = Some {}"
  by (auto simp: TIMIDITY_CreateFromIO_def sub_allocation_fails_def TIMIDITY_Delete_def
      zeroed_def Let_def split: option.splits if_splits)

lemma Create_succeeds:
  "\<not> sub_allocation_fails music_spec ext src \<Longrightarrow>
   fst (TIMIDITY_CreateFromIO music_spec mx ext src closeio) \<noteq> None"
  by (auto simp: TIMIDITY_CreateFromIO_def sub_allocation_fails_def TIMIDITY_Delete_def
      zeroed_def Let_def split: option.splits if_splits)

lemma Delete_releases:
  "owned (p, m) \<subseteq> live \<Longrightarrow> buffer m \<noteq> Some p \<Longrightarrow>
   accounts (TIMIDITY_Delete (p, m)) live = Some (live - owned (p, m))"
  by (cases "song m"; cases "stream m"; cases "buffer m")
     (auto simp: TIMIDITY_Delete_def owned_def)

lemma volume_ops_range:
  "lo \<le> volume m \<Longrightarrow> volume m \<le> hi \<Longrightarrow> levels_within lo hi ops \<Longrightarrow>
   lo \<le> volume (fst (volume_ops m ops)) \<and> volume (fst (volume_ops m ops)) \<le> hi
   \<and> (\<forall>r \<in> set (snd (volume_ops m ops)). lo \<le> r \<and> r \<le> hi)"
proof (induction m ops rule: volume_ops.induct)
  case (1 music)
  then show ?case by simp
next
  case (2 music v ops)
  then show ?case by (simp add: TIMIDITY_SetVolume_def)
next
  case (3 music ops)
  then show ?case by (auto simp: TIMIDITY_GetVolume_def split: prod.splits)
qed

text \<open>Evaluations of the examples.\<close>

lemma Create_spec6_ext0:
  "TIMIDITY_CreateFromIO spec6 128 ext0 (SDL_IOStream 7) True =
     (Some (100, \<lparr>play_count = 0, song = Some (MidiSong 1), stream = Some (SDL_AudioStream 1),
                  buffer = Some 200, buffer_size = 16384, volume = 128\<rparr>),
      [SDL_calloc (Some 100),
       Timidity_LoadSong (SDL_IOStream 7) spec2 (Some (MidiSong 1)),
       SDL_CreateAudioStream spec2 spec6 (Some (SDL_AudioStream 1)),
       SDL_malloc 16384 (Some 200),
       SDL_CloseIO (SDL_IOStream 7)])"
  by (simp add: TIMIDITY_CreateFromIO_def spec6_def spec2_def ext0_def zeroed_def
      SDL_AUDIO_BITSIZE_def Let_def)

lemma Create_spec2_ext0:
  "TIMIDITY_CreateFromIO spec2 128 ext0 (SDL_IOStream 7) True =
     (Some (100, \<lparr>play_count = 0, song = Some (MidiSong 1), stream = None,
                  buffer = None, buffer_size = 0, volume = 128\<rparr>),
      [SDL_calloc (Some 100),
       Timidity_LoadSong (SDL_IOStream 7) spec2 (Some (MidiSong 1)),
       SDL_CloseIO (SDL_IOStream 7)])"
  by (simp add: TIMIDITY_CreateFromIO_def spec2_def ext0_def zeroed_def Let_def)

lemma Create_spec6_ext_no_stream:
  "TIMIDITY_CreateFromIO spec6 128 ext_no_stream (SDL_IOStream 7) True =
     (None,
      [SDL_calloc (Some 100),
       Timidity_LoadSong (SDL_IOStream 7) spec2 (Some (MidiSong 1)),
       SDL_CreateAudioStream spec2 spec6 None,
       Timidity_FreeSong (MidiSong 1),
       SDL_free 100])"
  by (simp add: TIMIDITY_CreateFromIO_def TIMIDITY_Delete_def spec6_def spec2_def
      ext_no_stream_def ext0_def zeroed_def Let_def)

subsection \<open>Configuration discovery\<close>

text \<open>
  Claim C7. In every call of \<open>TIMIDITY_Open\<close>: when an explicit override is present (the
  environment variable \<^verbatim>\<open>TIMIDITY_CFG\<close>, else the user-supplied path), it is the only
  path tried and its result is returned, with no fallback. Otherwise the candidates are
  tried in order, the platform defaults and then the library's built-in default; the
  paths tried are the failing candidates up to and including the first that initialises
  the backend, the result is that of the last path tried, and the call succeeds exactly
  when some candidate initialises the backend.
\<close>

theorem Open_config_discovery:
  "(\<forall>c. spec_override ext = Some c \<longrightarrow>
      TIMIDITY_Open win32 ext = (ret_Timidity_Init ext (Some c), [Timidity_Init (Some c)]))
   \<and> (spec_override ext = None \<longrightarrow>
        snd (TIMIDITY_Open win32 ext) = map Timidity_Init (spec_tried ext (spec_candidates win32))
        \<and> fst (TIMIDITY_Open win32 ext) = ret_Timidity_Init ext (last (spec_tried ext (spec_candidates win32)))
        \<and> (0 \<le> fst (TIMIDITY_Open win32 ext))
            = (\<exists>c \<in> set (spec_candidates win32). 0 \<le> ret_Timidity_Init ext c))"
  using Open_override [of ext _ win32] Open_no_override [of ext win32] tried_success [of ext win32]
  by simp

theorem Open_config_discovery_witness:
  "spec_override ext_env = Some ''/my.cfg''
   \<and> TIMIDITY_Open False ext_env = (- 1, [Timidity_Init (Some ''/my.cfg'')])
   \<and> spec_override ext0 = None
   \<and> TIMIDITY_Open False ext0 =
       (0, [Timidity_Init (Some TIMIDITY_CFG_ETC), Timidity_Init (Some TIMIDITY_CFG_FREEPATS),
            Timidity_Init None])
   \<and> TIMIDITY_Open True ext0 = (0, [Timidity_Init (Some TIMIDITY_CFG), Timidity_Init None])"
proof -
  have o1: "spec_override ext_env = Some ''/my.cfg''"
    by (simp add: spec_override_def ext_env_def ext0_def)
  have o0: "spec_override ext0 = None"
    by (simp add: spec_override_def ext0_def)
  have r1: "ret_Timidity_Init ext_env (Some ''/my.cfg'') = - 1"
    by (simp add: ext_env_def ext0_def)
  have t0: "spec_tried ext0 (spec_candidates False) = [Some TIMIDITY_CFG_ETC, Some TIMIDITY_CFG_FREEPATS, None]"
    by (simp add: spec_tried_def spec_candidates_def ext0_def)
  have t1: "spec_tried ext0 (spec_candidates True) = [Some TIMIDITY_CFG, None]"
    by (simp add: spec_tried_def spec_candidates_def ext0_def)
  have r0: "ret_Timidity_Init ext0 None = 0"
    by (simp add: ext0_def)
  from Open_config_discovery [of ext_env False] o1 r1
  have a: "TIMIDITY_Open False ext_env = (- 1, [Timidity_Init (Some ''/my.cfg'')])"
    by simp
  from Open_config_discovery [of ext0 False] o0 t0 r0
  have b: "TIMIDITY_Open False ext0 =
       (0, [Timidity_Init (Some TIMIDITY_CFG_ETC), Timidity_Init (Some TIMIDITY_CFG_FREEPATS),
            Timidity_Init None])"
    by (simp add: prod_eq_iff)
  from Open_config_discovery [of ext0 True] o0 t1 r0
  have c: "TIMIDITY_Open True ext0 = (0, [Timidity_Init (Some TIMIDITY_CFG), Timidity_Init None])"
    by (simp add: prod_eq_iff)
  from o1 a o0 b c show ?thesis by simp
qed

subsection \<open>The pull protocol\<close>

text \<open>
  Claim C1. In every call of \<open>TIMIDITY_GetSome\<close> on a session with an adapter from which
  the drain yields a non-zero count (the adapter holds buffered bytes), the call returns
  that count, the drain wrote into the caller's buffer, and the drain is the only call
  made: the decoder is not invoked, and the session and the \<open>done\<close> flag are as before.
\<close>

theorem GetSome_drain_before_decode:
  assumes "stream music = Some st" and "ret_SDL_GetAudioStreamData ext st bytes \<noteq> 0"
  shows "ret (TIMIDITY_GetSome ext music data bytes done) = ret_SDL_GetAudioStreamData ext st bytes
       \<and> calls (TIMIDITY_GetSome ext music data bytes done) = [SDL_GetAudioStreamData st data bytes]
       \<and> \<not> list_ex is_decode (calls (TIMIDITY_GetSome ext music data bytes done))
       \<and> music_out (TIMIDITY_GetSome ext music data bytes done) = music
       \<and> done_out (TIMIDITY_GetSome ext music data bytes done) = done"
  using assms by (simp add: TIMIDITY_GetSome_def)

theorem GetSome_drain_before_decode_witness:
  "stream with_adapter = Some (SDL_AudioStream 1)
   \<and> ret_SDL_GetAudioStreamData ext_buffered (SDL_AudioStream 1) 4096 \<noteq> 0
   \<and> ret (TIMIDITY_GetSome ext_buffered with_adapter 300 4096 False) = 512
   \<and> calls (TIMIDITY_GetSome ext_buffered with_adapter 300 4096 False)
       = [SDL_GetAudioStreamData (SDL_AudioStream 1) 300 4096]"
proof -
  have h1: "stream with_adapter = Some (SDL_AudioStream 1)"
    by (simp add: with_adapter_def)
  have h2: "ret_SDL_GetAudioStreamData ext_buffered (SDL_AudioStream 1) 4096 = 512"
    by (simp add: ext_buffered_def ext0_def)
  from h2 have h3: "ret_SDL_GetAudioStreamData ext_buffered (SDL_AudioStream 1) 4096 \<noteq> 0"
    by simp
  from GetSome_drain_before_decode [OF h1 h3, of 300 False] h1 h2 show ?thesis
    by simp
qed

text \<open>
  Claim C2. In every call of \<open>TIMIDITY_GetSome\<close>: when the repeat count is 0 and the
  adapter yields nothing (the drain gives 0, or there is no adapter), the call sets
  \<open>done\<close>, returns 0 and makes no decode call. And in every call, a non-zero return value
  leaves \<open>done\<close> as the caller passed it, so a call never both sets \<open>done\<close> and returns
  a non-zero count.
\<close>

theorem GetSome_done_exclusive:
  "(play_count music = 0 \<and> drained ext music bytes = 0 \<longrightarrow>
      done_out (TIMIDITY_GetSome ext music data bytes done)
      \<and> ret (TIMIDITY_GetSome ext music data bytes done) = 0
      \<and> \<not> list_ex is_decode (calls (TIMIDITY_GetSome ext music data bytes done)))
   \<and> (ret (TIMIDITY_GetSome ext music data bytes done) \<noteq> 0 \<longrightarrow>
        done_out (TIMIDITY_GetSome ext music data bytes done) = done)
   \<and> (\<not> done \<longrightarrow>
        \<not> (done_out (TIMIDITY_GetSome ext music data bytes done)
           \<and> ret (TIMIDITY_GetSome ext music data bytes done) \<noteq> 0))"
  by (auto simp: TIMIDITY_GetSome_def drained_def Let_def split: option.splits prod.splits if_splits)

theorem GetSome_done_exclusive_witness:
  "play_count (with_adapter\<lparr>play_count := 0\<rparr>) = 0
   \<and> drained ext0 (with_adapter\<lparr>play_count := 0\<rparr>) 4096 = 0
   \<and> done_out (TIMIDITY_GetSome ext0 (with_adapter\<lparr>play_count := 0\<rparr>) 300 4096 False)
   \<and> ret (TIMIDITY_GetSome ext0 (with_adapter\<lparr>play_count := 0\<rparr>) 300 4096 False) = 0
   \<and> ret (TIMIDITY_GetSome ext0 (without_adapter\<lparr>play_count := 2\<rparr>) 300 4096 False) \<noteq> 0
   \<and> \<not> done_out (TIMIDITY_GetSome ext0 (without_adapter\<lparr>play_count := 2\<rparr>) 300 4096 False)"
proof -
  have h1: "play_count (with_adapter\<lparr>play_count := 0\<rparr>) = 0"
    by simp
  have h2: "drained ext0 (with_adapter\<lparr>play_count := 0\<rparr>) 4096 = 0"
    by (simp add: drained_def with_adapter_def ext0_def)
  have h3: "ret (TIMIDITY_GetSome ext0 (without_adapter\<lparr>play_count := 2\<rparr>) 300 4096 False) \<noteq> 0"
    by (simp add: TIMIDITY_GetSome_def without_adapter_def ext0_def)
  from GetSome_done_exclusive [of "with_adapter\<lparr>play_count := 0\<rparr>" ext0 4096 300 False] h1 h2
  have a: "done_out (TIMIDITY_GetSome ext0 (with_adapter\<lparr>play_count := 0\<rparr>) 300 4096 False)
    \<and> ret (TIMIDITY_GetSome ext0 (with_adapter\<lparr>play_count := 0\<rparr>) 300 4096 False) = 0"
    by simp
  from GetSome_done_exclusive [of "without_adapter\<lparr>play_count := 2\<rparr>" ext0 4096 300 False] h3
  have b: "\<not> done_out (TIMIDITY_GetSome ext0 (without_adapter\<lparr>play_count := 2\<rparr>) 300 4096 False)"
    by simp
  from h1 h2 h3 a b show ?thesis by simp
qed

text \<open>
  Claim C3, as amended. In every call of \<open>TIMIDITY_GetSome\<close> that reaches the decoder (the
  adapter yields nothing and the repeat count is not 0): when the decoder produces fewer
  bytes than the expected unit and the push of the produced bytes into the adapter, if
  there is one, succeeds, a repeat count of exactly 1 is forced to 0 and Play is not
  invoked; a repeat count above 1 re-invokes Play with the count decremented by one; a
  negative count re-invokes Play with \<open>- 1\<close>; the decoder handle, the adapter and the
  scratch buffer stay the same and no allocation call is made. When the push fails, the
  call returns \<open>- 1\<close> right after the push, whatever the decoder produced: the session,
  its repeat count included, and the \<open>done\<close> flag are as before, and Play is not invoked.
\<close>

theorem GetSome_short_production:
  assumes "drained ext music bytes = 0" and "play_count music \<noteq> 0"
  shows "(pushed ext music bytes \<and> produced ext music bytes < expected_unit music bytes \<longrightarrow>
           music_out (TIMIDITY_GetSome ext music data bytes done) =
             music\<lparr>play_count := (if play_count music = 1 then 0
                                   else if 1 < play_count music then play_count music - 1
                                   else - 1)\<rparr>
         \<and> calls (TIMIDITY_GetSome ext music data bytes done) =
             decode_calls music data bytes (produced ext music bytes)
             @ (if play_count music = 1 then []
                else [Timidity_Start (song music), Timidity_Seek (song music) 0])
         \<and> (play_count music \<noteq> 1 \<longrightarrow>
              (music_out (TIMIDITY_GetSome ext music data bytes done),
               drop (length (decode_calls music data bytes (produced ext music bytes)))
                 (calls (TIMIDITY_GetSome ext music data bytes done)))
              = snd (TIMIDITY_Play music
                       (if 1 < play_count music then play_count music - 1 else - 1)))
         \<and> \<not> list_ex is_allocation (calls (TIMIDITY_GetSome ext music data bytes done))
         \<and> ret (TIMIDITY_GetSome ext music data bytes done) =
             (if stream music = None then produced ext music bytes else 0)
         \<and> done_out (TIMIDITY_GetSome ext music data bytes done) = done)
       \<and> (\<not> pushed ext music bytes \<longrightarrow>
           ret (TIMIDITY_GetSome ext music data bytes done) = - 1
         \<and> music_out (TIMIDITY_GetSome ext music data bytes done) = music
         \<and> done_out (TIMIDITY_GetSome ext music data bytes done) = done
         \<and> calls (TIMIDITY_GetSome ext music data bytes done) =
             decode_calls music data bytes (produced ext music bytes)
         \<and> \<not> list_ex is_allocation (calls (TIMIDITY_GetSome ext music data bytes done)))"
    (is "?short \<and> ?failed")
proof -
  have a: ?short
  proof
    assume h: "pushed ext music bytes \<and> produced ext music bytes < expected_unit music bytes"
    note g = GetSome_short [OF assms h [THEN conjunct2] h [THEN conjunct1], of data "done"]
    show "music_out (TIMIDITY_GetSome ext music data bytes done) =
             music\<lparr>play_count := (if play_count music = 1 then 0
                                   else if 1 < play_count music then play_count music - 1
                                   else - 1)\<rparr>
         \<and> calls (TIMIDITY_GetSome ext music data bytes done) =
             decode_calls music data bytes (produced ext music bytes)
             @ (if play_count music = 1 then []
                else [Timidity_Start (song music), Timidity_Seek (song music) 0])
         \<and> (play_count music \<noteq> 1 \<longrightarrow>
              (music_out (TIMIDITY_GetSome ext music data bytes done),
               drop (length (decode_calls music data bytes (produced ext music bytes)))
                 (calls (TIMIDITY_GetSome ext music data bytes done)))
              = snd (TIMIDITY_Play music
                       (if 1 < play_count music then play_count music - 1 else - 1)))
         \<and> \<not> list_ex is_allocation (calls (TIMIDITY_GetSome ext music data bytes done))
         \<and> ret (TIMIDITY_GetSome ext music data bytes done) =
             (if stream music = None then produced ext music bytes else 0)
         \<and> done_out (TIMIDITY_GetSome ext music data bytes done) = done"
      by (simp add: g Play_unfolded decode_calls_no_allocation)
  qed
  have b: ?failed
  proof
    assume h: "\<not> pushed ext music bytes"
    note g = GetSome_push_fails [OF assms h, of data "done"]
    show "ret (TIMIDITY_GetSome ext music data bytes done) = - 1
         \<and> music_out (TIMIDITY_GetSome ext music data bytes done) = music
         \<and> done_out (TIMIDITY_GetSome ext music data bytes done) = done
         \<and> calls (TIMIDITY_GetSome ext music data bytes done) =
             decode_calls music data bytes (produced ext music bytes)
         \<and> \<not> list_ex is_allocation (calls (TIMIDITY_GetSome ext music data bytes done))"
      by (simp add: g decode_calls_no_allocation)
  qed
  from a b show ?thesis by (rule conjI)
qed

theorem GetSome_short_production_witness:
  "drained ext_short with_adapter 4096 = 0
   \<and> play_count with_adapter \<noteq> 0
   \<and> produced ext_short with_adapter 4096 < expected_unit with_adapter 4096
   \<and> pushed ext_short with_adapter 4096
   \<and> play_count (music_out (TIMIDITY_GetSome ext_short with_adapter 300 4096 False)) = 0
   \<and> play_count (music_out (TIMIDITY_GetSome ext_short (without_adapter\<lparr>play_count := 3\<rparr>)
        300 4096 False)) = 2
   \<and> play_count (music_out (TIMIDITY_GetSome ext_short (without_adapter\<lparr>play_count := - 1\<rparr>)
        300 4096 False)) = - 1
   \<and> play_count (music_out (TIMIDITY_GetSome ext_short (without_adapter\<lparr>play_count := - 5\<rparr>)
        300 4096 False)) = - 1
   \<and> drained ext_put_fails (with_adapter\<lparr>play_count := 3\<rparr>) 4096 = 0
   \<and> \<not> pushed ext_put_fails (with_adapter\<lparr>play_count := 3\<rparr>) 4096
   \<and> ret (TIMIDITY_GetSome ext_put_fails (with_adapter\<lparr>play_count := 3\<rparr>) 300 4096 False) = - 1
   \<and> music_out (TIMIDITY_GetSome ext_put_fails (with_adapter\<lparr>play_count := 3\<rparr>) 300 4096 False)
       = with_adapter\<lparr>play_count := 3\<rparr>"
proof -
  have h1: "drained ext_short with_adapter 4096 = 0"
    by (simp add: drained_def with_adapter_def ext_short_def ext0_def)
  have h2: "play_count with_adapter \<noteq> 0"
    by (simp add: with_adapter_def)
  have h3: "produced ext_short with_adapter 4096 < expected_unit with_adapter 4096"
    by (simp add: produced_def expected_unit_def with_adapter_def ext_short_def ext0_def)
  have h4: "pushed ext_short with_adapter 4096"
    by (simp add: pushed_def with_adapter_def ext_short_def ext0_def)
  have c1: "play_count with_adapter = 1"
    by (simp add: with_adapter_def)
  note t = GetSome_short_production [OF h1 h2, of 300 False]
  from t [THEN conjunct1, THEN mp, OF conjI [OF h4 h3], THEN conjunct1] c1
  have a: "play_count (music_out (TIMIDITY_GetSome ext_short with_adapter 300 4096 False)) = 0"
    by simp
  have g1: "drained ext_short (without_adapter\<lparr>play_count := n\<rparr>) 4096 = 0" for n
    by (simp add: drained_def without_adapter_def)
  have g2: "n \<noteq> 0 \<Longrightarrow> play_count (without_adapter\<lparr>play_count := n\<rparr>) \<noteq> 0" for n
    by simp
  have g3: "produced ext_short (without_adapter\<lparr>play_count := n\<rparr>) 4096
            < expected_unit (without_adapter\<lparr>play_count := n\<rparr>) 4096" for n
    by (simp add: produced_def expected_unit_def without_adapter_def ext_short_def ext0_def)
  have g4: "pushed ext_short (without_adapter\<lparr>play_count := n\<rparr>) 4096" for n
    by (simp add: pushed_def without_adapter_def)
  note u = GetSome_short_production [OF g1 g2, of _ 300 False,
      THEN conjunct1, THEN mp, OF _ conjI [OF g4 g3], THEN conjunct1]
  from u [of 3]
  have b: "play_count (music_out (TIMIDITY_GetSome ext_short (without_adapter\<lparr>play_count := 3\<rparr>)
        300 4096 False)) = 2"
    by simp
  from u [of "- 1"]
  have c: "play_count (music_out (TIMIDITY_GetSome ext_short (without_adapter\<lparr>play_count := - 1\<rparr>)
        300 4096 False)) = - 1"
    by simp
  from u [of "- 5"]
  have d: "play_count (music_out (TIMIDITY_GetSome ext_short (without_adapter\<lparr>play_count := - 5\<rparr>)
        300 4096 False)) = - 1"
    by simp
  have f1: "drained ext_put_fails (with_adapter\<lparr>play_count := 3\<rparr>) 4096 = 0"
    by (simp add: drained_def with_adapter_def ext_put_fails_def ext0_def)
  have f2: "play_count (with_adapter\<lparr>play_count := 3\<rparr>) \<noteq> 0"
    by simp
  have f3: "\<not> pushed ext_put_fails (with_adapter\<lparr>play_count := 3\<rparr>) 4096"
    by (simp add: pushed_def with_adapter_def ext_put_fails_def ext0_def)
  note v = GetSome_short_production [OF f1 f2, of 300 False, THEN conjunct2, THEN mp, OF f3]
  show ?thesis
    by (intro conjI h1 h2 h3 h4 a b c d f1 f3 v [THEN conjunct1]
        v [THEN conjunct2, THEN conjunct1])
qed

text \<open>
  Claim C3 as stated fails where the push into the adapter fails: the decoder produced
  100 bytes of the 16384 expected and the repeat count is exactly 1, yet the call returns
  \<open>- 1\<close> at once and the repeat count is still 1.
\<close>

theorem GetSome_short_production_counterexample:
  "drained ext_put_fails with_adapter 4096 = 0
   \<and> produced ext_put_fails with_adapter 4096 < expected_unit with_adapter 4096
   \<and> play_count with_adapter = 1
   \<and> play_count (music_out (TIMIDITY_GetSome ext_put_fails with_adapter 300 4096 False)) \<noteq> 0
   \<and> ret (TIMIDITY_GetSome ext_put_fails with_adapter 300 4096 False) = - 1"
  by (simp add: TIMIDITY_GetSome_def drained_def produced_def expected_unit_def
      with_adapter_def ext_put_fails_def ext0_def)

subsection \<open>Play, Stop and the volume\<close>

text \<open>
  Claim C4. For every session and every repeat count \<open>n\<close>, \<open>TIMIDITY_Play\<close> stores \<open>n\<close> as
  the session's repeat count, starts the decoder and, on every path, goes on to
  \<open>TIMIDITY_Seek\<close> at position 0, which seeks the decoder to millisecond 0; it returns
  that seek's status, 0.
\<close>

theorem Play_sets_count_and_seeks:
  "TIMIDITY_Play music n =
     (0, music\<lparr>play_count := n\<rparr>, [Timidity_Start (song music), Timidity_Seek (song music) 0])
   \<and> snd (snd (TIMIDITY_Play music n)) =
       Timidity_Start (song music) # snd (TIMIDITY_Seek (music\<lparr>play_count := n\<rparr>) 0)
   \<and> play_count (fst (snd (TIMIDITY_Play music n))) = n"
  by (simp add: Play_unfolded Seek_to_start)

theorem Play_sets_count_and_seeks_witness:
  "play_count (fst (snd (TIMIDITY_Play with_adapter 5))) = 5
   \<and> snd (snd (TIMIDITY_Play with_adapter 5))
       = [Timidity_Start (Some (MidiSong 1)), Timidity_Seek (Some (MidiSong 1)) 0]"
proof -
  have s: "song with_adapter = Some (MidiSong 1)"
    by (simp add: with_adapter_def)
  from Play_sets_count_and_seeks [of with_adapter 5] s show ?thesis
    by simp
qed

text \<open>
  Claim C8, as amended. For every session, \<open>TIMIDITY_Stop\<close> hands the session's song to the
  decoder's \<open>Timidity_Stop\<close> and changes no field of the session, whatever the repeat
  count is: the repeat count after Stop is 0 exactly when it was 0 before, and the pull
  that follows a Stop on a session with a non-zero repeat count does not set \<open>done\<close>.
\<close>

theorem Stop_leaves_repeat_count:
  "TIMIDITY_Stop music = (music, [Timidity_Stop (song music)])
   \<and> (play_count (fst (TIMIDITY_Stop music)) = 0) = (play_count music = 0)
   \<and> (play_count music \<noteq> 0 \<longrightarrow>
        done_out (TIMIDITY_GetSome ext (fst (TIMIDITY_Stop music)) data bytes done) = done)"
  by (auto simp: TIMIDITY_Stop_def TIMIDITY_GetSome_def Let_def split: option.splits prod.splits)

theorem Stop_leaves_repeat_count_witness:
  "play_count (with_adapter\<lparr>play_count := 3\<rparr>) \<noteq> 0
   \<and> \<not> done_out (TIMIDITY_GetSome ext0 (fst (TIMIDITY_Stop (with_adapter\<lparr>play_count := 3\<rparr>)))
          300 4096 False)"
proof -
  have h: "play_count (with_adapter\<lparr>play_count := 3\<rparr>) \<noteq> 0"
    by simp
  note t = Stop_leaves_repeat_count [of "with_adapter\<lparr>play_count := 3\<rparr>" ext0 300 4096 False]
  have "done_out (TIMIDITY_GetSome ext0 (fst (TIMIDITY_Stop (with_adapter\<lparr>play_count := 3\<rparr>)))
          300 4096 False) = False"
    using t [THEN conjunct2, THEN conjunct2] h by (rule mp)
  with h show ?thesis by blast
qed

text \<open>
  Claim C8 as stated fails on a playing session: after Stop on a session with repeat
  count 3 the repeat count is still 3, not the 0 of the Stopped state.
\<close>

theorem Stop_counterexample:
  "play_count (fst (TIMIDITY_Stop (with_adapter\<lparr>play_count := 3\<rparr>))) = 3
   \<and> play_count (fst (TIMIDITY_Stop (with_adapter\<lparr>play_count := 3\<rparr>))) \<noteq> 0"
  by (simp add: TIMIDITY_Stop_def)

text \<open>
  Claim C9, as amended. A session is constructed with volume \<open>MIX_MAX_VOLUME\<close>;
  \<open>TIMIDITY_SetVolume\<close> stores the level it is given as it is, without clamping, and
  \<open>TIMIDITY_GetVolume\<close> returns the stored level and changes nothing. So for every
  session whose volume is in \<open>[0, MIX_MAX_VOLUME]\<close> and every sequence of
  SetVolume/GetVolume operations in which every level set is in that range, the volume
  stays in the range, and so does every level read.
\<close>

theorem volume_in_range:
  "(TIMIDITY_CreateFromIO music_spec MIX_MAX_VOLUME ext src closeio = (Some (p, m0), cl) \<longrightarrow>
      volume m0 = MIX_MAX_VOLUME)
   \<and> fst (TIMIDITY_SetVolume m v) = m\<lparr>volume := v\<rparr>
   \<and> TIMIDITY_GetVolume m = volume m
   \<and> (0 \<le> volume m \<and> volume m \<le> MIX_MAX_VOLUME \<and> levels_within 0 MIX_MAX_VOLUME ops \<longrightarrow>
      0 \<le> volume (fst (volume_ops m ops)) \<and> volume (fst (volume_ops m ops)) \<le> MIX_MAX_VOLUME
      \<and> (\<forall>r \<in> set (snd (volume_ops m ops)). 0 \<le> r \<and> r \<le> MIX_MAX_VOLUME))"
proof (intro conjI impI)
  assume "TIMIDITY_CreateFromIO music_spec MIX_MAX_VOLUME ext src closeio = (Some (p, m0), cl)"
  then show "volume m0 = MIX_MAX_VOLUME"
    by (rule Create_volume)
next
  show "fst (TIMIDITY_SetVolume m v) = m\<lparr>volume := v\<rparr>"
    by (simp add: TIMIDITY_SetVolume_def)
next
  show "TIMIDITY_GetVolume m = volume m"
    by (simp add: TIMIDITY_GetVolume_def)
next
  assume h: "0 \<le> volume m \<and> volume m \<le> MIX_MAX_VOLUME \<and> levels_within 0 MIX_MAX_VOLUME ops"
  note r = volume_ops_range [OF h [THEN conjunct1] h [THEN conjunct2, THEN conjunct1]
      h [THEN conjunct2, THEN conjunct2]]
  show "0 \<le> volume (fst (volume_ops m ops))"
    by (rule r [THEN conjunct1])
  show "volume (fst (volume_ops m ops)) \<le> MIX_MAX_VOLUME"
    by (rule r [THEN conjunct2, THEN conjunct1])
  show "\<forall>r \<in> set (snd (volume_ops m ops)). 0 \<le> r \<and> r \<le> MIX_MAX_VOLUME"
    by (rule r [THEN conjunct2, THEN conjunct2])
qed

theorem volume_in_range_witness:
  "TIMIDITY_CreateFromIO spec2 128 ext0 (SDL_IOStream 7) True =
     (Some (100, without_adapter\<lparr>play_count := 0\<rparr>),
      [SDL_calloc (Some 100), Timidity_LoadSong (SDL_IOStream 7) spec2 (Some (MidiSong 1)),
       SDL_CloseIO (SDL_IOStream 7)])
   \<and> volume (without_adapter\<lparr>play_count := 0\<rparr>) = 128
   \<and> levels_within 0 128 [SetVolume 64, GetVolume, SetVolume 0, SetVolume 128]
   \<and> 0 \<le> volume (fst (volume_ops (without_adapter\<lparr>play_count := 0\<rparr>)
            [SetVolume 64, GetVolume, SetVolume 0, SetVolume 128]))
   \<and> volume (fst (volume_ops (without_adapter\<lparr>play_count := 0\<rparr>)
            [SetVolume 64, GetVolume, SetVolume 0, SetVolume 128])) \<le> 128"
proof -
  note t = volume_in_range [of spec2 128 ext0 "SDL_IOStream 7" True 100
      "without_adapter\<lparr>play_count := 0\<rparr>"
      "[SDL_calloc (Some 100), Timidity_LoadSong (SDL_IOStream 7) spec2 (Some (MidiSong 1)),
        SDL_CloseIO (SDL_IOStream 7)]"
      "without_adapter\<lparr>play_count := 0\<rparr>" 0
      "[SetVolume 64, GetVolume, SetVolume 0, SetVolume 128]"]
  have c: "TIMIDITY_CreateFromIO spec2 128 ext0 (SDL_IOStream 7) True =
     (Some (100, without_adapter\<lparr>play_count := 0\<rparr>),
      [SDL_calloc (Some 100), Timidity_LoadSong (SDL_IOStream 7) spec2 (Some (MidiSong 1)),
       SDL_CloseIO (SDL_IOStream 7)])"
    by (simp add: Create_spec2_ext0 without_adapter_def)
  have v: "volume (without_adapter\<lparr>play_count := 0\<rparr>) = 128"
    using t [THEN conjunct1] c by (rule mp)
  have ops: "levels_within 0 128 [SetVolume 64, GetVolume, SetVolume 0, SetVolume 128]"
    by simp
  from v ops have h: "0 \<le> volume (without_adapter\<lparr>play_count := 0\<rparr>)
     \<and> volume (without_adapter\<lparr>play_count := 0\<rparr>) \<le> 128
     \<and> levels_within 0 128 [SetVolume 64, GetVolume, SetVolume 0, SetVolume 128]"
    by simp
  have r: "0 \<le> volume (fst (volume_ops (without_adapter\<lparr>play_count := 0\<rparr>)
            [SetVolume 64, GetVolume, SetVolume 0, SetVolume 128]))
     \<and> volume (fst (volume_ops (without_adapter\<lparr>play_count := 0\<rparr>)
            [SetVolume 64, GetVolume, SetVolume 0, SetVolume 128])) \<le> 128
     \<and> (\<forall>r \<in> set (snd (volume_ops (without_adapter\<lparr>play_count := 0\<rparr>)
            [SetVolume 64, GetVolume, SetVolume 0, SetVolume 128])). 0 \<le> r \<and> r \<le> 128)"
    using t [THEN conjunct2, THEN conjunct2, THEN conjunct2] h by (rule mp)
  show ?thesis
    by (intro conjI c v ops r [THEN conjunct1] r [THEN conjunct2, THEN conjunct1])
qed

text \<open>
  Claim C9 as stated fails: on the session just constructed with \<open>MIX_MAX_VOLUME = 128\<close>,
  SetVolume 200 leaves the volume at 200 and SetVolume (- 1) leaves it at \<open>- 1\<close>, and
  GetVolume reads those levels.
\<close>

theorem volume_counterexample:
  "fst (TIMIDITY_CreateFromIO spec2 128 ext0 (SDL_IOStream 7) True)
     = Some (100, without_adapter\<lparr>play_count := 0\<rparr>)
   \<and> volume_ops (without_adapter\<lparr>play_count := 0\<rparr>) [SetVolume 200, GetVolume]
       = (without_adapter\<lparr>play_count := 0, volume := 200\<rparr>, [200])
   \<and> \<not> (volume (fst (volume_ops (without_adapter\<lparr>play_count := 0\<rparr>) [SetVolume 200, GetVolume]))
          \<le> 128)
   \<and> \<not> (0 \<le> volume (fst (volume_ops (without_adapter\<lparr>play_count := 0\<rparr>) [SetVolume (- 1)])))"
proof (intro conjI)
  show "fst (TIMIDITY_CreateFromIO spec2 128 ext0 (SDL_IOStream 7) True)
     = Some (100, without_adapter\<lparr>play_count := 0\<rparr>)"
    by (simp add: Create_spec2_ext0 without_adapter_def)
  show "volume_ops (without_adapter\<lparr>play_count := 0\<rparr>) [SetVolume 200, GetVolume]
       = (without_adapter\<lparr>play_count := 0, volume := 200\<rparr>, [200])"
    by (simp add: TIMIDITY_SetVolume_def TIMIDITY_GetVolume_def)
  show "\<not> (volume (fst (volume_ops (without_adapter\<lparr>play_count := 0\<rparr>) [SetVolume 200, GetVolume]))
          \<le> 128)"
    by (simp add: TIMIDITY_SetVolume_def TIMIDITY_GetVolume_def)
  show "\<not> (0 \<le> volume (fst (volume_ops (without_adapter\<lparr>play_count := 0\<rparr>) [SetVolume (- 1)])))"
    by (simp add: TIMIDITY_SetVolume_def TIMIDITY_GetVolume_def)
qed

subsection \<open>Construction and teardown\<close>

text \<open>
  Claim C5, as amended. For every session successfully constructed by
  \<open>TIMIDITY_CreateFromIO\<close>: the adapter is created if and only if the channel count of the
  output format \<open>music_spec\<close> exceeds 2; the decoder is opened with that channel count
  capped at 2, and the adapter converts from the decoder's two channels to the channels of
  the output format; the scratch buffer exists if and only if the adapter exists, and its
  size, the one recorded in the session and the one asked of \<open>SDL_malloc\<close>, is 4096
  frames times the sample size in bytes times the decoder's 2 channels. With an output
  format of at most two channels no stream is created and no buffer allocated. The
  session holds what the libraries handed out, and the calls made are exactly the
  allocation of the struct, the load of the song, the two adapter calls when an adapter
  is needed, and the close of the input when it was asked for.
\<close>

theorem Create_adapter_iff_output_channels:
  assumes "TIMIDITY_CreateFromIO music_spec MIX_MAX_VOLUME ext src closeio = (Some (p, m), cl)"
  shows "(stream m \<noteq> None) = (2 < channels music_spec)
       \<and> (buffer m \<noteq> None) = (stream m \<noteq> None)
       \<and> (stream m \<noteq> None \<longrightarrow>
            buffer_size m = 4096 * (SDL_AUDIO_BITSIZE (format music_spec) div 8) * 2)
       \<and> decoder_channels cl = Some (min (channels music_spec) 2)
       \<and> (stream m \<noteq> None \<longrightarrow> adapter_channels cl = Some (2, channels music_spec))
       \<and> (stream m \<noteq> None \<longrightarrow>
            SDL_CreateAudioStream (music_spec\<lparr>channels := 2\<rparr>) music_spec (stream m) \<in> set cl
            \<and> SDL_malloc (4096 * (SDL_AUDIO_BITSIZE (format music_spec) div 8) * 2) (buffer m)
                \<in> set cl)
       \<and> (stream m = None \<longrightarrow> \<not> list_ex is_adapter_allocation cl)
       \<and> cl = [SDL_calloc (Some p), Timidity_LoadSong src (decoder_spec music_spec) (song m)]
              @ (if 2 < channels music_spec
                 then [SDL_CreateAudioStream (music_spec\<lparr>channels := 2\<rparr>) music_spec (stream m),
                       SDL_malloc (4096 * (SDL_AUDIO_BITSIZE (format music_spec) div 8) * 2)
                         (buffer m)]
                 else [])
              @ (if closeio then [SDL_CloseIO src] else [])
       \<and> ret_SDL_calloc ext = Some p
       \<and> song m = ret_Timidity_LoadSong ext src (decoder_spec music_spec)
       \<and> song m \<noteq> None
       \<and> stream m = (if 2 < channels music_spec
             then ret_SDL_CreateAudioStream ext (music_spec\<lparr>channels := 2\<rparr>) music_spec
             else None)
       \<and> buffer m = (if 2 < channels music_spec
             then ret_SDL_malloc ext (4096 * (SDL_AUDIO_BITSIZE (format music_spec) div 8) * 2)
             else None)"
  using assms by (rule Create_shape)

theorem Create_adapter_iff_output_channels_witness:
  "TIMIDITY_CreateFromIO spec6 128 ext0 (SDL_IOStream 7) True =
     (Some (100, with_adapter\<lparr>play_count := 0\<rparr>),
      [SDL_calloc (Some 100),
       Timidity_LoadSong (SDL_IOStream 7) spec2 (Some (MidiSong 1)),
       SDL_CreateAudioStream spec2 spec6 (Some (SDL_AudioStream 1)),
       SDL_malloc 16384 (Some 200),
       SDL_CloseIO (SDL_IOStream 7)])
   \<and> (stream (with_adapter\<lparr>play_count := 0\<rparr>) \<noteq> None) = (2 < channels spec6)
   \<and> (buffer (with_adapter\<lparr>play_count := 0\<rparr>) \<noteq> None)
       = (stream (with_adapter\<lparr>play_count := 0\<rparr>) \<noteq> None)
   \<and> stream (with_adapter\<lparr>play_count := 0\<rparr>) \<noteq> None
   \<and> buffer_size (with_adapter\<lparr>play_count := 0\<rparr>)
       = 4096 * (SDL_AUDIO_BITSIZE (format spec6) div 8) * 2
   \<and> SDL_malloc (4096 * (SDL_AUDIO_BITSIZE (format spec6) div 8) * 2)
        (buffer (with_adapter\<lparr>play_count := 0\<rparr>))
       \<in> set [SDL_calloc (Some 100),
               Timidity_LoadSong (SDL_IOStream 7) spec2 (Some (MidiSong 1)),
               SDL_CreateAudioStream spec2 spec6 (Some (SDL_AudioStream 1)),
               SDL_malloc 16384 (Some 200),
               SDL_CloseIO (SDL_IOStream 7)]
   \<and> TIMIDITY_CreateFromIO spec2 128 ext0 (SDL_IOStream 7) True =
     (Some (100, without_adapter\<lparr>play_count := 0\<rparr>),
      [SDL_calloc (Some 100),
       Timidity_LoadSong (SDL_IOStream 7) spec2 (Some (MidiSong 1)),
       SDL_CloseIO (SDL_IOStream 7)])
   \<and> stream (without_adapter\<lparr>play_count := 0\<rparr>) = None
   \<and> \<not> list_ex is_adapter_allocation
         [SDL_calloc (Some 100),
          Timidity_LoadSong (SDL_IOStream 7) spec2 (Some (MidiSong 1)),
          SDL_CloseIO (SDL_IOStream 7)]"
proof -
  have c: "TIMIDITY_CreateFromIO spec6 128 ext0 (SDL_IOStream 7) True =
     (Some (100, with_adapter\<lparr>play_count := 0\<rparr>),
      [SDL_calloc (Some 100),
       Timidity_LoadSong (SDL_IOStream 7) spec2 (Some (MidiSong 1)),
       SDL_CreateAudioStream spec2 spec6 (Some (SDL_AudioStream 1)),
       SDL_malloc 16384 (Some 200),
       SDL_CloseIO (SDL_IOStream 7)])"
    by (simp add: Create_spec6_ext0 with_adapter_def)
  note t = Create_adapter_iff_output_channels [OF c]
  have s: "stream (with_adapter\<lparr>play_count := 0\<rparr>) \<noteq> None"
    by (simp add: with_adapter_def)
  have b: "buffer_size (with_adapter\<lparr>play_count := 0\<rparr>)
       = 4096 * (SDL_AUDIO_BITSIZE (format spec6) div 8) * 2"
    using t [THEN conjunct2, THEN conjunct2, THEN conjunct1] s by (rule mp)
  note m = t [THEN conjunct2, THEN conjunct2, THEN conjunct2, THEN conjunct2, THEN conjunct2,
      THEN conjunct1, THEN mp, OF s, THEN conjunct2]
  have d: "TIMIDITY_CreateFromIO spec2 128 ext0 (SDL_IOStream 7) True =
     (Some (100, without_adapter\<lparr>play_count := 0\<rparr>),
      [SDL_calloc (Some 100),
       Timidity_LoadSong (SDL_IOStream 7) spec2 (Some (MidiSong 1)),
       SDL_CloseIO (SDL_IOStream 7)])"
    by (simp add: Create_spec2_ext0 without_adapter_def)
  note u = Create_adapter_iff_output_channels [OF d]
  have n: "stream (without_adapter\<lparr>play_count := 0\<rparr>) = None"
    by (simp add: without_adapter_def)
  note k = u [THEN conjunct2, THEN conjunct2, THEN conjunct2, THEN conjunct2, THEN conjunct2,
      THEN conjunct2, THEN conjunct1, THEN mp, OF n]
  show ?thesis
    by (intro conjI c t [THEN conjunct1] t [THEN conjunct2, THEN conjunct1] s b m d n k)
qed

text \<open>
  Claim C5 as stated fails on a six-channel output format: the session is constructed
  with an adapter, yet the decoder's own channel count is 2, which does not exceed 2, and
  the adapter converts from 2 channels to 6, not down to stereo.
\<close>

theorem Create_adapter_counterexample:
  "fst (TIMIDITY_CreateFromIO spec6 128 ext0 (SDL_IOStream 7) True) \<noteq> None
   \<and> stream (snd (the (fst (TIMIDITY_CreateFromIO spec6 128 ext0 (SDL_IOStream 7) True)))) \<noteq> None
   \<and> decoder_channels (snd (TIMIDITY_CreateFromIO spec6 128 ext0 (SDL_IOStream 7) True)) = Some 2
   \<and> \<not> (2 < the (decoder_channels (snd (TIMIDITY_CreateFromIO spec6 128 ext0 (SDL_IOStream 7) True))))
   \<and> adapter_channels (snd (TIMIDITY_CreateFromIO spec6 128 ext0 (SDL_IOStream 7) True))
       = Some (2, 6)"
proof -
  have ch: "channels spec2 = 2" "channels spec6 = 6"
    by (simp_all add: spec2_def spec6_def)
  show ?thesis
    by (simp add: Create_spec6_ext0 ch)
qed

text \<open>
  Claim C6. For every construction attempt in which an allocation that is attempted fails
  (the session struct, the decoder load, and with more than two output channels the
  adapter or the scratch buffer), \<open>TIMIDITY_CreateFromIO\<close> returns NULL, and its calls
  release every resource they acquired, once each, and nothing else; a construction fails
  only so. Branch by branch, with the resources the libraries handed out: nothing is
  released when the struct is not allocated; the struct is freed when the song does not
  load; the song and the struct are freed when the adapter is not created; the song, the
  adapter and the struct are freed when the buffer is not allocated. \<open>TIMIDITY_Delete\<close>,
  on a session with any of the decoder handle, the adapter and the scratch buffer absent,
  releases the resources that are present and the struct, and makes no release of
  anything absent.
\<close>

theorem Create_failure_unwinds_and_Delete_tolerant:
  "(sub_allocation_fails music_spec ext src \<longrightarrow>
      fst (TIMIDITY_CreateFromIO music_spec MIX_MAX_VOLUME ext src closeio) = None
      \<and> accounts (snd (TIMIDITY_CreateFromIO music_spec MIX_MAX_VOLUME ext src closeio)) {}
          = Some {})
   \<and> (fst (TIMIDITY_CreateFromIO music_spec MIX_MAX_VOLUME ext src closeio) = None \<longrightarrow>
        sub_allocation_fails music_spec ext src)
   \<and> (owned (p, m) \<subseteq> live \<and> buffer m \<noteq> Some p \<longrightarrow>
        accounts (TIMIDITY_Delete (p, m)) live = Some (live - owned (p, m)))
   \<and> (ret_SDL_calloc ext = None \<longrightarrow>
        TIMIDITY_CreateFromIO music_spec MIX_MAX_VOLUME ext src closeio
          = (None, [SDL_calloc None]))
   \<and> (ret_SDL_calloc ext = Some q
        \<and> ret_Timidity_LoadSong ext src (decoder_spec music_spec) = None \<longrightarrow>
        TIMIDITY_CreateFromIO music_spec MIX_MAX_VOLUME ext src closeio
          = (None, [SDL_calloc (Some q),
                    Timidity_LoadSong src (decoder_spec music_spec) None,
                    SDL_free q]))
   \<and> (ret_SDL_calloc ext = Some q \<and> 2 < channels music_spec
        \<and> ret_Timidity_LoadSong ext src (decoder_spec music_spec) = Some sg
        \<and> ret_SDL_CreateAudioStream ext (decoder_spec music_spec) music_spec = None \<longrightarrow>
        TIMIDITY_CreateFromIO music_spec MIX_MAX_VOLUME ext src closeio
          = (None, [SDL_calloc (Some q),
                    Timidity_LoadSong src (decoder_spec music_spec) (Some sg),
                    SDL_CreateAudioStream (decoder_spec music_spec) music_spec None,
                    Timidity_FreeSong sg,
                    SDL_free q]))
   \<and> (ret_SDL_calloc ext = Some q \<and> 2 < channels music_spec
        \<and> ret_Timidity_LoadSong ext src (decoder_spec music_spec) = Some sg
        \<and> ret_SDL_CreateAudioStream ext (decoder_spec music_spec) music_spec = Some st
        \<and> ret_SDL_malloc ext (4096 * (SDL_AUDIO_BITSIZE (format music_spec) div 8) * 2) = None \<longrightarrow>
        TIMIDITY_CreateFromIO music_spec MIX_MAX_VOLUME ext src closeio
          = (None, [SDL_calloc (Some q),
                    Timidity_LoadSong src (decoder_spec music_spec) (Some sg),
                    SDL_CreateAudioStream (decoder_spec music_spec) music_spec (Some st),
                    SDL_malloc (4096 * (SDL_AUDIO_BITSIZE (format music_spec) div 8) * 2) None,
                    Timidity_FreeSong sg,
                    SDL_DestroyAudioStream st,
                    SDL_free q]))"
proof (intro conjI impI)
  assume "sub_allocation_fails music_spec ext src"
  then show "fst (TIMIDITY_CreateFromIO music_spec MIX_MAX_VOLUME ext src closeio) = None"
    by (rule Create_fails [THEN conjunct1])
next
  assume "sub_allocation_fails music_spec ext src"
  then show "accounts (snd (TIMIDITY_CreateFromIO music_spec MIX_MAX_VOLUME ext src closeio)) {}
      = Some {}"
    by (rule Create_fails [THEN conjunct2])
next
  assume "fst (TIMIDITY_CreateFromIO music_spec MIX_MAX_VOLUME ext src closeio) = None"
  then show "sub_allocation_fails music_spec ext src"
    using Create_succeeds [of music_spec ext src MIX_MAX_VOLUME closeio] by blast
next
  assume "owned (p, m) \<subseteq> live \<and> buffer m \<noteq> Some p"
  then show "accounts (TIMIDITY_Delete (p, m)) live = Some (live - owned (p, m))"
    using Delete_releases [of p m live] by blast
next
  assume "ret_SDL_calloc ext = None"
  then show "TIMIDITY_CreateFromIO music_spec MIX_MAX_VOLUME ext src closeio
      = (None, [SDL_calloc None])"
    by (rule Create_fails_struct)
next
  assume "ret_SDL_calloc ext = Some q
      \<and> ret_Timidity_LoadSong ext src (decoder_spec music_spec) = None"
  then show "TIMIDITY_CreateFromIO music_spec MIX_MAX_VOLUME ext src closeio
      = (None, [SDL_calloc (Some q),
                Timidity_LoadSong src (decoder_spec music_spec) None,
                SDL_free q])"
    by (rule Create_fails_song)
next
  assume "ret_SDL_calloc ext = Some q \<and> 2 < channels music_spec
      \<and> ret_Timidity_LoadSong ext src (decoder_spec music_spec) = Some sg
      \<and> ret_SDL_CreateAudioStream ext (decoder_spec music_spec) music_spec = None"
  then show "TIMIDITY_CreateFromIO music_spec MIX_MAX_VOLUME ext src closeio
      = (None, [SDL_calloc (Some q),
                Timidity_LoadSong src (decoder_spec music_spec) (Some sg),
                SDL_CreateAudioStream (decoder_spec music_spec) music_spec None,
                Timidity_FreeSong sg,
                SDL_free q])"
    by (rule Create_fails_stream)
next
  assume "ret_SDL_calloc ext = Some q \<and> 2 < channels music_spec
      \<and> ret_Timidity_LoadSong ext src (decoder_spec music_spec) = Some sg
      \<and> ret_SDL_CreateAudioStream ext (decoder_spec music_spec) music_spec = Some st
      \<and> ret_SDL_malloc ext (4096 * (SDL_AUDIO_BITSIZE (format music_spec) div 8) * 2) = None"
  then show "TIMIDITY_CreateFromIO music_spec MIX_MAX_VOLUME ext src closeio
      = (None, [SDL_calloc (Some q),
                Timidity_LoadSong src (decoder_spec music_spec) (Some sg),
                SDL_CreateAudioStream (decoder_spec music_spec) music_spec (Some st),
                SDL_malloc (4096 * (SDL_AUDIO_BITSIZE (format music_spec) div 8) * 2) None,
                Timidity_FreeSong sg,
                SDL_DestroyAudioStream st,
                SDL_free q])"
    by (rule Create_fails_buffer)
qed

theorem Create_failure_unwinds_and_Delete_tolerant_witness:
  "sub_allocation_fails spec6 ext_no_stream (SDL_IOStream 7)
   \<and> fst (TIMIDITY_CreateFromIO spec6 128 ext_no_stream (SDL_IOStream 7) True) = None
   \<and> accounts (snd (TIMIDITY_CreateFromIO spec6 128 ext_no_stream (SDL_IOStream 7) True)) {}
       = Some {}
   \<and> owned (100, zeroed\<lparr>song := Some (MidiSong 1)\<rparr>) \<subseteq> {Mem 100, Song (MidiSong 1), Mem 5}
   \<and> buffer (zeroed\<lparr>song := Some (MidiSong 1)\<rparr>) \<noteq> Some 100
   \<and> accounts (TIMIDITY_Delete (100, zeroed\<lparr>song := Some (MidiSong 1)\<rparr>))
        {Mem 100, Song (MidiSong 1), Mem 5}
       = Some ({Mem 100, Song (MidiSong 1), Mem 5} - owned (100, zeroed\<lparr>song := Some (MidiSong 1)\<rparr>))
   \<and> TIMIDITY_CreateFromIO spec6 128 ext_no_struct (SDL_IOStream 7) True
       = (None, [SDL_calloc None])
   \<and> TIMIDITY_CreateFromIO spec6 128 ext_no_song (SDL_IOStream 7) True
       = (None, [SDL_calloc (Some 100),
                 Timidity_LoadSong (SDL_IOStream 7) (decoder_spec spec6) None,
                 SDL_free 100])
   \<and> TIMIDITY_CreateFromIO spec6 128 ext_no_stream (SDL_IOStream 7) True
       = (None, [SDL_calloc (Some 100),
                 Timidity_LoadSong (SDL_IOStream 7) (decoder_spec spec6) (Some (MidiSong 1)),
                 SDL_CreateAudioStream (decoder_spec spec6) spec6 None,
                 Timidity_FreeSong (MidiSong 1),
                 SDL_free 100])
   \<and> TIMIDITY_CreateFromIO spec6 128 ext_no_buffer (SDL_IOStream 7) True
       = (None, [SDL_calloc (Some 100),
                 Timidity_LoadSong (SDL_IOStream 7) (decoder_spec spec6) (Some (MidiSong 1)),
                 SDL_CreateAudioStream (decoder_spec spec6) spec6 (Some (SDL_AudioStream 1)),
                 SDL_malloc (4096 * (SDL_AUDIO_BITSIZE (format spec6) div 8) * 2) None,
                 Timidity_FreeSong (MidiSong 1),
                 SDL_DestroyAudioStream (SDL_AudioStream 1),
                 SDL_free 100])
   \<and> decoder_spec spec6 = spec2"
proof -
  note t = Create_failure_unwinds_and_Delete_tolerant [of spec6 ext_no_stream "SDL_IOStream 7"
      128 True 100 "zeroed\<lparr>song := Some (MidiSong 1)\<rparr>" "{Mem 100, Song (MidiSong 1), Mem 5}"
      100 "MidiSong 1" "SDL_AudioStream 1"]
  have f: "sub_allocation_fails spec6 ext_no_stream (SDL_IOStream 7)"
    by (simp add: sub_allocation_fails_def spec6_def ext_no_stream_def ext0_def)
  have a: "fst (TIMIDITY_CreateFromIO spec6 128 ext_no_stream (SDL_IOStream 7) True) = None
      \<and> accounts (snd (TIMIDITY_CreateFromIO spec6 128 ext_no_stream (SDL_IOStream 7) True)) {}
          = Some {}"
    using t [THEN conjunct1] f by (rule mp)
  have o: "owned (100, zeroed\<lparr>song := Some (MidiSong 1)\<rparr>) \<subseteq> {Mem 100, Song (MidiSong 1), Mem 5}
      \<and> buffer (zeroed\<lparr>song := Some (MidiSong 1)\<rparr>) \<noteq> Some 100"
    by (simp add: owned_def zeroed_def)
  have d: "accounts (TIMIDITY_Delete (100, zeroed\<lparr>song := Some (MidiSong 1)\<rparr>))
        {Mem 100, Song (MidiSong 1), Mem 5}
       = Some ({Mem 100, Song (MidiSong 1), Mem 5} - owned (100, zeroed\<lparr>song := Some (MidiSong 1)\<rparr>))"
    using t [THEN conjunct2, THEN conjunct2, THEN conjunct1] o by (rule mp)
  have six: "2 < channels spec6"
    by (simp add: spec6_def)
  have e1: "ret_SDL_calloc ext_no_struct = None"
    by (simp add: ext_no_struct_def ext0_def)
  have e2: "ret_SDL_calloc ext_no_song = Some 100
      \<and> ret_Timidity_LoadSong ext_no_song (SDL_IOStream 7) (decoder_spec spec6) = None"
    by (simp add: ext_no_song_def ext0_def)
  have e3: "ret_SDL_calloc ext_no_stream = Some 100 \<and> 2 < channels spec6
      \<and> ret_Timidity_LoadSong ext_no_stream (SDL_IOStream 7) (decoder_spec spec6)
          = Some (MidiSong 1)
      \<and> ret_SDL_CreateAudioStream ext_no_stream (decoder_spec spec6) spec6 = None"
    using six by (simp add: ext_no_stream_def ext0_def)
  have e4: "ret_SDL_calloc ext_no_buffer = Some 100 \<and> 2 < channels spec6
      \<and> ret_Timidity_LoadSong ext_no_buffer (SDL_IOStream 7) (decoder_spec spec6)
          = Some (MidiSong 1)
      \<and> ret_SDL_CreateAudioStream ext_no_buffer (decoder_spec spec6) spec6
          = Some (SDL_AudioStream 1)
      \<and> ret_SDL_malloc ext_no_buffer (4096 * (SDL_AUDIO_BITSIZE (format spec6) div 8) * 2)
          = None"
    using six by (simp add: ext_no_buffer_def ext0_def)
  note r1 = Create_failure_unwinds_and_Delete_tolerant [of spec6 ext_no_struct "SDL_IOStream 7"
      128 True 100 zeroed "{}" 100 "MidiSong 1" "SDL_AudioStream 1",
      THEN conjunct2, THEN conjunct2, THEN conjunct2, THEN conjunct1, THEN mp, OF e1]
  note r2 = Create_failure_unwinds_and_Delete_tolerant [of spec6 ext_no_song "SDL_IOStream 7"
      128 True 100 zeroed "{}" 100 "MidiSong 1" "SDL_AudioStream 1",
      THEN conjunct2, THEN conjunct2, THEN conjunct2, THEN conjunct2, THEN conjunct1,
      THEN mp, OF e2]
  note r3 = t [THEN conjunct2, THEN conjunct2, THEN conjunct2, THEN conjunct2, THEN conjunct2,
      THEN conjunct1, THEN mp, OF e3]
  note r4 = Create_failure_unwinds_and_Delete_tolerant [of spec6 ext_no_buffer "SDL_IOStream 7"
      128 True 100 zeroed "{}" 100 "MidiSong 1" "SDL_AudioStream 1",
      THEN conjunct2, THEN conjunct2, THEN conjunct2, THEN conjunct2, THEN conjunct2,
      THEN conjunct2, THEN mp, OF e4]
  show ?thesis
    by (intro conjI f a [THEN conjunct1] a [THEN conjunct2] o [THEN conjunct1]
        o [THEN conjunct2] d r1 r2 r3 r4 decoder_spec_spec6)
qed

text \<open>
  Claim C10. For every call of \<open>TIMIDITY_CreateFromIO\<close> with \<open>closeio\<close> true, the input
  stream is closed if and only if the construction succeeds; when the construction fails
  no stream is closed, so the input is left open for the caller.
\<close>

theorem Create_closes_io_iff_success:
  "(SDL_CloseIO src \<in> set (snd (TIMIDITY_CreateFromIO music_spec MIX_MAX_VOLUME ext src True)))
   = (fst (TIMIDITY_CreateFromIO music_spec MIX_MAX_VOLUME ext src True) \<noteq> None)
  \<and> (fst (TIMIDITY_CreateFromIO music_spec MIX_MAX_VOLUME ext src True) = None \<longrightarrow>
       (\<forall>s. SDL_CloseIO s \<notin> set (snd (TIMIDITY_CreateFromIO music_spec MIX_MAX_VOLUME ext src True))))"
  by (auto simp: TIMIDITY_CreateFromIO_def TIMIDITY_Delete_def zeroed_def Let_def
      split: option.splits if_splits)

theorem Create_closes_io_iff_success_witness:
  "fst (TIMIDITY_CreateFromIO spec6 128 ext_no_stream (SDL_IOStream 7) True) = None
   \<and> SDL_CloseIO (SDL_IOStream 7)
       \<notin> set (snd (TIMIDITY_CreateFromIO spec6 128 ext_no_stream (SDL_IOStream 7) True))
   \<and> fst (TIMIDITY_CreateFromIO spec6 128 ext0 (SDL_IOStream 7) True) \<noteq> None
   \<and> SDL_CloseIO (SDL_IOStream 7)
       \<in> set (snd (TIMIDITY_CreateFromIO spec6 128 ext0 (SDL_IOStream 7) True))"
proof -
  note t = Create_closes_io_iff_success [of "SDL_IOStream 7" spec6 128 ext_no_stream]
  note u = Create_closes_io_iff_success [of "SDL_IOStream 7" spec6 128 ext0]
  have f: "fst (TIMIDITY_CreateFromIO spec6 128 ext_no_stream (SDL_IOStream 7) True) = None"
    by (simp add: Create_spec6_ext_no_stream)
  have n: "\<forall>s. SDL_CloseIO s
       \<notin> set (snd (TIMIDITY_CreateFromIO spec6 128 ext_no_stream (SDL_IOStream 7) True))"
    using t [THEN conjunct2] f by (rule mp)
  have g: "fst (TIMIDITY_CreateFromIO spec6 128 ext0 (SDL_IOStream 7) True) \<noteq> None"
    by (simp add: Create_spec6_ext0)
  have c: "SDL_CloseIO (SDL_IOStream 7)
       \<in> set (snd (TIMIDITY_CreateFromIO spec6 128 ext0 (SDL_IOStream 7) True))"
    using u [THEN conjunct1] g by (rule iffD2)
  show ?thesis
    by (intro conjI f n [THEN spec] g c)
qed

end
